theory Spec2Isabelle
  imports Main "HOL-Library.Word"
begin

section \<open>JavaScript values\<close>

text \<open>
  A number is an integer from \<open>- 2 ^ 53\<close> to \<open>2 ^ 53 - 1\<close>, read by \<open>sint\<close>: the
  integers of the wire contract (chain ids, cursors, decimals), each of which a double
  holds exactly and \<^verbatim>\<open>String\<close> prints in plain decimal. The type has no other number:
  no fraction, no NaN, and none of the large numbers that \<^verbatim>\<open>String\<close> rounds or prints
  with an exponent. The client computes nothing with a number, so no operation of the
  type ever wraps; a numeral beyond the range is, as in every word type, a name of the
  number in range that it is congruent to, not of the JavaScript number of that size.
\<close>

type_synonym js_number = "54 word"

text \<open>
  Plain JavaScript data as the client sees it at run time: what \<^verbatim>\<open>JSON.parse\<close>
  returns, plus \<^verbatim>\<open>undefined\<close>. An object is the list of its own enumerable
  properties in \<^verbatim>\<open>Object.entries\<close> order.
\<close>

datatype jsv =
    Undefined
  | Null
  | Bool bool
  | Num js_number
  | Str string
  | Arr "jsv list"
  | Obj "(string \<times> jsv) list"

text \<open>\<^verbatim>\<open>v === undefined || v === null\<close>, the test behind \<^verbatim>\<open>??\<close> and \<^verbatim>\<open>?.\<close>.\<close>

fun nullish :: "jsv \<Rightarrow> bool" where
  "nullish Undefined = True"
| "nullish Null = True"
| "nullish _ = False"

text \<open>ToBoolean, the test behind \<^verbatim>\<open>||\<close> and \<^verbatim>\<open>!\<close>.\<close>

fun truthy :: "jsv \<Rightarrow> bool" where
  "truthy Undefined = False"
| "truthy Null = False"
| "truthy (Bool b) = b"
| "truthy (Num n) = (n \<noteq> 0)"
| "truthy (Str s) = (s \<noteq> [])"
| "truthy (Arr _) = True"
| "truthy (Obj _) = True"

definition js_or :: "jsv \<Rightarrow> jsv \<Rightarrow> jsv" where
  "js_or a b = (if truthy a then a else b)"

definition nullish_coalesce :: "jsv \<Rightarrow> jsv \<Rightarrow> jsv" where
  "nullish_coalesce a b = (if nullish a then b else a)"

text \<open>
  Reading a property of a value that is neither \<^verbatim>\<open>undefined\<close> nor \<^verbatim>\<open>null\<close>. The
  client reads only \<^verbatim>\<open>message\<close>, \<^verbatim>\<open>error\<close>, \<^verbatim>\<open>code\<close>, \<^verbatim>\<open>details\<close>, \<^verbatim>\<open>data\<close>,
  \<^verbatim>\<open>cursor\<close> and \<^verbatim>\<open>status\<close>, none of which a built-in prototype defines, so the
  lookup is among the own properties of an object and gives \<^verbatim>\<open>undefined\<close> on
  every primitive and array.
\<close>

fun own_prop :: "jsv \<Rightarrow> string \<Rightarrow> jsv" where
  "own_prop (Obj fs) k = (case map_of fs k of Some v \<Rightarrow> v | None \<Rightarrow> Undefined)"
| "own_prop _ k = Undefined"

text \<open>\<^verbatim>\<open>v?.k\<close>\<close>

definition opt_member :: "jsv \<Rightarrow> string \<Rightarrow> jsv" where
  "opt_member v k = (if nullish v then Undefined else own_prop v k)"

text \<open>\<^verbatim>\<open>{ ...obj, k: v }\<close> on property lists: an existing key keeps its place.\<close>

fun obj_set :: "(string \<times> 'a) list \<Rightarrow> string \<Rightarrow> 'a \<Rightarrow> (string \<times> 'a) list" where
  "obj_set [] k v = [(k, v)]"
| "obj_set ((k', v') # fs) k v =
     (if k' = k then (k, v) # fs else (k', v') # obj_set fs k v)"

text \<open>\<^verbatim>\<open>{ ...a, ...b }\<close>\<close>

definition obj_spread :: "(string \<times> 'a) list \<Rightarrow> (string \<times> 'a) list \<Rightarrow> (string \<times> 'a) list" where
  "obj_spread a b = fold (\<lambda>(k, v) acc. obj_set acc k v) b a"

subsection \<open>ToString\<close>

definition digit_char :: "nat \<Rightarrow> char" where
  "digit_char d = ''0123456789'' ! d"

fun show_nat :: "nat \<Rightarrow> string" where
  "show_nat n =
     (if n < 10 then [digit_char n] else show_nat (n div 10) @ [digit_char (n mod 10)])"

declare show_nat.simps [simp del]

definition show_int :: "int \<Rightarrow> string" where
  "show_int i = (if i < 0 then CHR ''-'' # show_nat (nat (- i)) else show_nat (nat i))"

fun join :: "string \<Rightarrow> string list \<Rightarrow> string" where
  "join sep [] = []"
| "join sep [x] = x"
| "join sep (x # y # ys) = x @ sep @ join sep (y # ys)"

text \<open>\<^verbatim>\<open>String(n)\<close> for a number, also what a template literal makes of it.\<close>

definition Number_toString :: "js_number \<Rightarrow> string" where
  "Number_toString n = show_int (sint n)"

text \<open>\<^verbatim>\<open>xs.map(f)\<close> for an \<open>f\<close> that may throw: the results, or \<open>None\<close> when one call throws.\<close>

fun all_some :: "'a option list \<Rightarrow> 'a list option" where
  "all_some [] = Some []"
| "all_some (None # _) = None"
| "all_some (Some x # xs) = (case all_some xs of None \<Rightarrow> None | Some ys \<Rightarrow> Some (x # ys))"

text \<open>
  \<^verbatim>\<open>String(v)\<close>, the ToString of ECMAScript, also what the \<^verbatim>\<open>Error\<close> constructor
  applies to its message; \<open>None\<close> when it throws \<^verbatim>\<open>TypeError\<close>. An object of
  \<^verbatim>\<open>JSON.parse\<close> is converted by the \<^verbatim>\<open>toString\<close> it inherits, unless it has a property
  of that name of its own: that one is no function, and the \<^verbatim>\<open>valueOf\<close> tried next
  gives no primitive, so the conversion throws. An array joins the strings of its
  elements, \<^verbatim>\<open>undefined\<close> and \<^verbatim>\<open>null\<close> counting as empty, and throws when one of them
  does.
\<close>

fun js_String :: "jsv \<Rightarrow> string option" where
  "js_String Undefined = Some ''undefined''"
| "js_String Null = Some ''null''"
| "js_String (Bool b) = Some (if b then ''true'' else ''false'')"
| "js_String (Num n) = Some (Number_toString n)"
| "js_String (Str s) = Some s"
| "js_String (Arr xs) =
     map_option (join '','')
       (all_some (map (\<lambda>x. if nullish x then Some [] else js_String x) xs))"
| "js_String (Obj props) =
     (if ''toString'' \<in> fst ` set props then None else Some ''[object Object]'')"

subsection \<open>URL encoding\<close>

text \<open>
  Strings are well-formed text held as UTF-8 bytes, so \<^verbatim>\<open>encodeURIComponent\<close> is
  the byte-wise percent encoding and never raises \<^verbatim>\<open>URIError\<close>.
\<close>

definition hex_char :: "nat \<Rightarrow> char" where
  "hex_char d = ''0123456789ABCDEF'' ! d"

definition percent_encode :: "char \<Rightarrow> string" where
  "percent_encode c =
     [CHR ''%'', hex_char ((of_char c :: nat) div 16), hex_char ((of_char c :: nat) mod 16)]"

definition alphanumeric :: "char \<Rightarrow> bool" where
  "alphanumeric c \<longleftrightarrow>
     c \<in> set ''ABCDEFGHIJKLMNOPQRSTUVWXYZabcdefghijklmnopqrstuvwxyz0123456789''"

definition uri_unreserved :: "char \<Rightarrow> bool" where
  "uri_unreserved c \<longleftrightarrow> alphanumeric c \<or> c \<in> set ''-_.!~*()'' \<or> c = CHR 0x27"

definition encodeURIComponent :: "string \<Rightarrow> string" where
  "encodeURIComponent s =
     concat (map (\<lambda>c. if uri_unreserved c then [c] else percent_encode c) s)"

text \<open>\<^verbatim>\<open>URLSearchParams\<close>: an ordered list of pairs.\<close>

type_synonym url_search_params = "(string \<times> string) list"

text \<open>
  \<^verbatim>\<open>params.set(k, v)\<close>: the first pair named \<open>k\<close> takes the value and the other
  pairs named \<open>k\<close> go; with no such pair, the new one is appended.
\<close>

fun params_set :: "url_search_params \<Rightarrow> string \<Rightarrow> string \<Rightarrow> url_search_params" where
  "params_set [] k v = [(k, v)]"
| "params_set ((k', v') # ps) k v =
     (if k' = k then (k, v) # filter (\<lambda>p. fst p \<noteq> k) ps else (k', v') # params_set ps k v)"

definition form_encode_char :: "char \<Rightarrow> string" where
  "form_encode_char c =
     (if alphanumeric c \<or> c \<in> set ''*-._'' then [c]
      else if c = CHR '' '' then ''+''
      else percent_encode c)"

definition form_encode :: "string \<Rightarrow> string" where
  "form_encode s = concat (map form_encode_char s)"

text \<open>\<^verbatim>\<open>params.toString()\<close>\<close>

definition params_toString :: "url_search_params \<Rightarrow> string" where
  "params_toString ps = join ''&'' (map (\<lambda>(k, v). form_encode k @ ''='' @ form_encode v) ps)"

section \<open>errors.ts\<close>

text \<open>A thrown value that is not a \<^verbatim>\<open>HyperstreamApiError\<close>.\<close>

datatype js_error =
    ErrorInstance string  \<comment> \<open>\<^verbatim>\<open>instanceof Error\<close>, with its \<^verbatim>\<open>message\<close>\<close>
  | NonError jsv          \<comment> \<open>anything else a \<^verbatim>\<open>throw\<close> can carry\<close>

datatype details =
    Echoed jsv            \<comment> \<open>a value taken from the response body\<close>
  | Wrapped js_error      \<comment> \<open>\<^verbatim>\<open>{ error }\<close>\<close>

text \<open>\<^verbatim>\<open>HyperstreamApiError\<close>; a \<open>requestId\<close> that is \<open>None\<close> is \<^verbatim>\<open>null\<close>.\<close>

record api_error =
  message :: string
  status :: int
  code :: jsv
  details :: details
  requestId :: "string option"
  causeResponseBody :: jsv

text \<open>
  The constructor. \<^verbatim>\<open>super(params.message)\<close> comes first: \<^verbatim>\<open>Error\<close> stores the ToString
  of the message, and when that conversion throws, the constructor throws its
  \<^verbatim>\<open>TypeError\<close> and there is no error object (\<open>None\<close>). The fields are assigned after
  it, \<^verbatim>\<open>params.requestId ?? null\<close> among them.
\<close>

definition HyperstreamApiError ::
  "jsv \<Rightarrow> int \<Rightarrow> jsv \<Rightarrow> details \<Rightarrow> string option \<Rightarrow> jsv \<Rightarrow> api_error option" where
  "HyperstreamApiError msg st cd det rid body =
     (case js_String msg of
        None \<Rightarrow> None
      | Some m \<Rightarrow>
          Some \<lparr>message = m, status = st, code = cd, details = det,
                requestId = rid, causeResponseBody = body\<rparr>)"

text \<open>What an \<^verbatim>\<open>await\<close> inside the transport can reject with.\<close>

datatype thrown =
    ThrownApiError api_error
  | ThrownOther js_error

text \<open>What a method of the client can reject with.\<close>

datatype failure =
    ApiFailure api_error
  | TypeError  \<comment> \<open>from reading a property of \<^verbatim>\<open>undefined\<close> or \<^verbatim>\<open>null\<close>, or from ToString\<close>

text \<open>\<^verbatim>\<open>new HyperstreamApiError(...)\<close> where it stands: the error, or what the constructor throws.\<close>

definition constructed :: "api_error option \<Rightarrow> failure" where
  "constructed e = (case e of Some err \<Rightarrow> ApiFailure err | None \<Rightarrow> TypeError)"

text \<open>\<^verbatim>\<open>v.k\<close>\<close>

definition member :: "jsv \<Rightarrow> string \<Rightarrow> failure + jsv" where
  "member v k = (if nullish v then Inl TypeError else Inr (own_prop v k))"

section \<open>fetch.ts\<close>

text \<open>
  \<^verbatim>\<open>JSON.stringify(v)\<close> is kept symbolic: the text of \<open>v\<close>, and \<^verbatim>\<open>undefined\<close>
  (\<open>None\<close>) for \<^verbatim>\<open>undefined\<close>.
\<close>

datatype json_text = JSON_text jsv

definition JSON_stringify :: "jsv \<Rightarrow> json_text option" where
  "JSON_stringify v = (if v = Undefined then None else Some (JSON_text v))"

text \<open>\<^verbatim>\<open>RequestInit\<close>, the members the code sets.\<close>

record request_init =
  init_method :: "string option"
  init_body :: "json_text option"
  init_headers :: "(string \<times> string) list option"

text \<open>
  The platform's \<^verbatim>\<open>Response\<close>: \<open>json\<close> is what
  \<^verbatim>\<open>response.clone().json().catch(() => undefined)\<close> gives, \<^verbatim>\<open>undefined\<close> for a body
  that is not JSON; \<open>resp_headers\<close> is the header list of its \<^verbatim>\<open>Headers\<close>, which holds
  every name in lower case.
\<close>

record response =
  resp_status :: int
  statusText :: string
  resp_headers :: "(string \<times> string) list"
  json :: jsv

text \<open>\<^verbatim>\<open>response.ok\<close> of the Fetch standard: the status is in the range 200 to 299.\<close>

definition response_ok :: "response \<Rightarrow> bool" where
  "response_ok r \<longleftrightarrow> 200 \<le> resp_status r \<and> resp_status r \<le> 299"

text \<open>A header name in lower case, as \<^verbatim>\<open>Headers\<close> stores and compares names.\<close>

definition lower_char :: "char \<Rightarrow> char" where
  "lower_char c =
     (case map_of (zip ''ABCDEFGHIJKLMNOPQRSTUVWXYZ'' ''abcdefghijklmnopqrstuvwxyz'') c of
        Some l \<Rightarrow> l
      | None \<Rightarrow> c)"

definition lower :: "string \<Rightarrow> string" where
  "lower s = map lower_char s"

text \<open>\<^verbatim>\<open>new Headers(init)\<close> for an object of names and values.\<close>

definition Headers :: "(string \<times> string) list \<Rightarrow> (string \<times> string) list" where
  "Headers init = map (\<lambda>(name, v). (lower name, v)) init"

text \<open>
  \<^verbatim>\<open>headers.get(name)\<close>: the values under the name, whatever its case, joined by a comma
  and a space; \<open>None\<close>, for \<^verbatim>\<open>null\<close>, when there is none.
\<close>

definition headers_get :: "(string \<times> string) list \<Rightarrow> string \<Rightarrow> string option" where
  "headers_get hs name =
     (case map snd (filter (\<lambda>h. fst h = lower name) hs) of
        [] \<Rightarrow> None
      | vs \<Rightarrow> Some (join '', '' vs))"

record FetchJSONResult =
  res_status :: int
  data :: jsv
  ok :: bool
  raw :: "response option"

text \<open>
  Awaited calls pass the outside world \<open>'w\<close> along and return it; a rejected promise is
  \<open>Inl\<close>.
\<close>

type_synonym 'w FetchLike = "string \<Rightarrow> request_init \<Rightarrow> 'w \<Rightarrow> (thrown + response) \<times> 'w"

type_synonym 'w RequestInterceptor =
  "string \<Rightarrow> request_init \<Rightarrow> 'w \<Rightarrow> (thrown + string \<times> request_init) \<times> 'w"

type_synonym 'w ResponseInterceptor = "response \<Rightarrow> 'w \<Rightarrow> (thrown + response) \<times> 'w"

record 'w FetchConfig =
  cfg_baseURL :: "string option"
  cfg_headers :: "(string \<times> string) list option"
  cfg_fetch :: "'w FetchLike option"

record 'w Fetch =
  baseURL :: "string option"
  headers :: "(string \<times> string) list"
  requestInterceptors :: "'w RequestInterceptor list"
  responseInterceptors :: "'w ResponseInterceptor list"
  fetchImpl :: "'w FetchLike"

text \<open>The constructor; the first argument is \<^verbatim>\<open>globalThis.fetch\<close>, if there is one.\<close>

definition Fetch_new :: "'w FetchLike option \<Rightarrow> 'w FetchConfig \<Rightarrow> js_error + 'w Fetch" where
  "Fetch_new globalThis_fetch config =
     (case (case cfg_fetch config of Some f \<Rightarrow> Some f | None \<Rightarrow> globalThis_fetch) of
        None \<Rightarrow> Inl (ErrorInstance ''Fetch: global fetch is not available.'')
      | Some f \<Rightarrow>
          Inr \<lparr>baseURL = cfg_baseURL config,
               headers = (case cfg_headers config of Some h \<Rightarrow> h | None \<Rightarrow> []),
               requestInterceptors = [],
               responseInterceptors = [],
               fetchImpl = f\<rparr>)"

definition addRequestInterceptor :: "'w Fetch \<Rightarrow> 'w RequestInterceptor \<Rightarrow> 'w Fetch" where
  "addRequestInterceptor this interceptor =
     this\<lparr>requestInterceptors := requestInterceptors this @ [interceptor]\<rparr>"

definition addResponseInterceptor :: "'w Fetch \<Rightarrow> 'w ResponseInterceptor \<Rightarrow> 'w Fetch" where
  "addResponseInterceptor this interceptor =
     this\<lparr>responseInterceptors := responseInterceptors this @ [interceptor]\<rparr>"

fun run_request_interceptors ::
  "'w RequestInterceptor list \<Rightarrow> string \<Rightarrow> request_init \<Rightarrow> 'w
     \<Rightarrow> (thrown + string \<times> request_init) \<times> 'w" where
  "run_request_interceptors [] fullUrl finalInit w = (Inr (fullUrl, finalInit), w)"
| "run_request_interceptors (interceptor # rest) fullUrl finalInit w =
     (case interceptor fullUrl finalInit w of
        (Inl e, w') \<Rightarrow> (Inl e, w')
      | (Inr (fullUrl', finalInit'), w') \<Rightarrow> run_request_interceptors rest fullUrl' finalInit' w')"

fun run_response_interceptors ::
  "'w ResponseInterceptor list \<Rightarrow> response \<Rightarrow> 'w \<Rightarrow> (thrown + response) \<times> 'w" where
  "run_response_interceptors [] response w = (Inr response, w)"
| "run_response_interceptors (interceptor # rest) response w =
     (case interceptor response w of
        (Inl e, w') \<Rightarrow> (Inl e, w')
      | (Inr response', w') \<Rightarrow> run_response_interceptors rest response' w')"

text \<open>\<^verbatim>\<open>this.baseURL ? this.baseURL + url : url\<close>\<close>

definition fullUrl_of :: "'w Fetch \<Rightarrow> string \<Rightarrow> string" where
  "fullUrl_of this url =
     (case baseURL this of
        Some b \<Rightarrow> if b \<noteq> [] then b @ url else url
      | None \<Rightarrow> url)"

definition finalInit_of :: "'w Fetch \<Rightarrow> request_init \<Rightarrow> request_init" where
  "finalInit_of this init =
     init\<lparr>init_headers :=
       Some (obj_spread (headers this) (case init_headers init of Some h \<Rightarrow> h | None \<Rightarrow> []))\<rparr>"

text \<open>\<^verbatim>\<open>{ status, data, raw, ok }\<close>\<close>

definition json_result :: "response \<Rightarrow> FetchJSONResult" where
  "json_result response =
     \<lparr>res_status = resp_status response,
      data = json response,
      ok = response_ok response,
      raw = Some response\<rparr>"

definition Fetch_request ::
  "'w Fetch \<Rightarrow> string \<Rightarrow> request_init \<Rightarrow> 'w \<Rightarrow> (thrown + FetchJSONResult) \<times> 'w" where
  "Fetch_request this url init w =
     (case run_request_interceptors (requestInterceptors this)
             (fullUrl_of this url) (finalInit_of this init) w of
        (Inl e, w1) \<Rightarrow> (Inl e, w1)
      | (Inr (fullUrl, finalInit), w1) \<Rightarrow>
          (case fetchImpl this fullUrl finalInit w1 of
             (Inl e, w2) \<Rightarrow> (Inl e, w2)
           | (Inr response0, w2) \<Rightarrow>
               (case run_response_interceptors (responseInterceptors this) response0 w2 of
                  (Inl e, w3) \<Rightarrow> (Inl e, w3)
                | (Inr response, w3) \<Rightarrow> (Inr (json_result response), w3))))"

text \<open>\<^verbatim>\<open>{ ...init, method: "GET" }\<close>\<close>

definition get_init :: "request_init \<Rightarrow> request_init" where
  "get_init init = init\<lparr>init_method := Some ''GET''\<rparr>"

text \<open>\<^verbatim>\<open>{ ...init, method: "POST", body: JSON.stringify(body), headers: {...} }\<close>\<close>

definition post_init :: "jsv \<Rightarrow> request_init \<Rightarrow> request_init" where
  "post_init body init =
     init\<lparr>init_method := Some ''POST'',
          init_body := JSON_stringify body,
          init_headers :=
            Some (obj_spread [(''Content-Type'', ''application/json'')]
                    (case init_headers init of Some h \<Rightarrow> h | None \<Rightarrow> []))\<rparr>"

definition Fetch_get ::
  "'w Fetch \<Rightarrow> string \<Rightarrow> request_init \<Rightarrow> 'w \<Rightarrow> (thrown + FetchJSONResult) \<times> 'w" where
  "Fetch_get this url init = Fetch_request this url (get_init init)"

definition Fetch_post ::
  "'w Fetch \<Rightarrow> string \<Rightarrow> jsv \<Rightarrow> request_init \<Rightarrow> 'w \<Rightarrow> (thrown + FetchJSONResult) \<times> 'w" where
  "Fetch_post this url body init = Fetch_request this url (post_init body init)"

section \<open>client.ts\<close>

record ClientRequestConfig =
  path :: string
  req_method :: "string option"
  req_body :: jsv
  query :: "(string \<times> jsv) list option"
  req_headers :: "(string \<times> string) list option"

record 'w HyperstreamClientConfig =
  baseUrl :: string
  config_headers :: "(string \<times> string) list option"
  fetch :: "'w FetchLike option"
  userAgent :: "string option"

text \<open>\<^verbatim>\<open>s.replace(/\/+$/, "")\<close>\<close>

definition strip_trailing_slashes :: "string \<Rightarrow> string" where
  "strip_trailing_slashes s = rev (dropWhile (\<lambda>c. c = CHR ''/'') (rev s))"

text \<open>\<^verbatim>\<open>config.baseUrl.replace(/\/+$/, "") || config.baseUrl\<close>\<close>

definition normalizedBase :: "string \<Rightarrow> string" where
  "normalizedBase b =
     (let stripped = strip_trailing_slashes b in if stripped \<noteq> [] then stripped else b)"

text \<open>
  The constructor of \<^verbatim>\<open>HyperstreamClient\<close>, which extends \<^verbatim>\<open>Fetch\<close>: the object is the
  \<^verbatim>\<open>Fetch\<close> object, and \<^verbatim>\<open>this.transport\<close> is the two wrappers below.
\<close>

definition HyperstreamClient_new ::
  "'w FetchLike option \<Rightarrow> 'w HyperstreamClientConfig \<Rightarrow> js_error + 'w Fetch" where
  "HyperstreamClient_new globalThis_fetch config =
     (if baseUrl config = [] then
        Inl (ErrorInstance ''HyperstreamClient: `baseUrl` is required.'')
      else
        let headers0 = (case config_headers config of Some h \<Rightarrow> h | None \<Rightarrow> []);
            headers1 = (case userAgent config of
                          Some ua \<Rightarrow> if ua \<noteq> [] then obj_set headers0 ''User-Agent'' ua else headers0
                        | None \<Rightarrow> headers0)
        in Fetch_new globalThis_fetch
             \<lparr>cfg_baseURL = Some (normalizedBase (baseUrl config)),
              cfg_headers = Some headers1,
              cfg_fetch = fetch config\<rparr>)"

text \<open>
  \<^verbatim>\<open>normalizeTransportError\<close> where the proxy calls it, in \<^verbatim>\<open>throw
  this.normalizeTransportError(error)\<close>: what that statement throws.
\<close>

definition normalizeTransportError :: "thrown \<Rightarrow> failure" where
  "normalizeTransportError error =
     (case error of
        ThrownApiError e \<Rightarrow> ApiFailure e
      | ThrownOther err \<Rightarrow>
          constructed
            (HyperstreamApiError
               (case err of
                  ErrorInstance m \<Rightarrow> Str m
                | NonError _ \<Rightarrow> Str ''Hyperstream transport request failed'')
               0
               (Str ''TransportError'')
               (Wrapped err)
               None
               Undefined))"

text \<open>\<^verbatim>\<open>this.transport.get\<close> and \<^verbatim>\<open>this.transport.post\<close>, as \<^verbatim>\<open>createTransportProxy\<close> builds them.\<close>

definition transport_get ::
  "'w Fetch \<Rightarrow> string \<Rightarrow> request_init \<Rightarrow> 'w \<Rightarrow> (failure + FetchJSONResult) \<times> 'w" where
  "transport_get this url init w =
     (case Fetch_get this url init w of
        (Inl error, w') \<Rightarrow> (Inl (normalizeTransportError error), w')
      | (Inr result, w') \<Rightarrow> (Inr result, w'))"

definition transport_post ::
  "'w Fetch \<Rightarrow> string \<Rightarrow> jsv \<Rightarrow> request_init \<Rightarrow> 'w \<Rightarrow> (failure + FetchJSONResult) \<times> 'w" where
  "transport_post this url body init w =
     (case Fetch_post this url body init w of
        (Inl error, w') \<Rightarrow> (Inl (normalizeTransportError error), w')
      | (Inr result, w') \<Rightarrow> (Inr result, w'))"

text \<open>
  The \<^verbatim>\<open>new HyperstreamApiError({...})\<close> of \<^verbatim>\<open>executeRequest\<close> for a result that is not
  \<^verbatim>\<open>ok\<close>: the error, or \<open>None\<close> when the constructor throws.
\<close>

definition error_of_result :: "FetchJSONResult \<Rightarrow> api_error option" where
  "error_of_result result =
     (let payload = data result;
          message =
            js_or (opt_member payload ''message'')
              (js_or (opt_member payload ''error'')
                 (js_or (case raw result of Some r \<Rightarrow> Str (statusText r) | None \<Rightarrow> Undefined)
                    (Str ''Hyperstream API request failed'')))
      in HyperstreamApiError
           message
           (res_status result)
           (nullish_coalesce (opt_member payload ''code'') Undefined)
           (Echoed (nullish_coalesce (opt_member payload ''details'') payload))
           (case raw result of Some r \<Rightarrow> headers_get (resp_headers r) ''x-request-id'' | None \<Rightarrow> None)
           payload)"

text \<open>\<^verbatim>\<open>{ headers }\<close>, the headers being \<^verbatim>\<open>{ Accept: "application/json", ...config.headers }\<close>.\<close>

definition execute_init :: "ClientRequestConfig \<Rightarrow> request_init" where
  "execute_init config =
     \<lparr>init_method = None, init_body = None,
      init_headers =
        Some (obj_spread [(''Accept'', ''application/json'')]
                (case req_headers config of Some h \<Rightarrow> h | None \<Rightarrow> []))\<rparr>"

text \<open>The \<^verbatim>\<open>result\<close> of \<^verbatim>\<open>executeRequest\<close>, from the transport.\<close>

definition transport_result ::
  "'w Fetch \<Rightarrow> string \<Rightarrow> ClientRequestConfig \<Rightarrow> 'w \<Rightarrow> (failure + FetchJSONResult) \<times> 'w" where
  "transport_result this path' config w =
     (let method = (case req_method config of Some m \<Rightarrow> m | None \<Rightarrow> ''GET'')
      in if method = ''GET'' then transport_get this path' (execute_init config) w
         else transport_post this path' (req_body config) (execute_init config) w)"

definition executeRequest ::
  "'w Fetch \<Rightarrow> string \<Rightarrow> ClientRequestConfig \<Rightarrow> 'w \<Rightarrow> (failure + jsv) \<times> 'w" where
  "executeRequest this path' config w =
     (case transport_result this path' config w of
           (Inl e, w') \<Rightarrow> (Inl e, w')
         | (Inr result, w') \<Rightarrow>
             if \<not> ok result then (Inl (constructed (error_of_result result)), w')
             else (Inr (data result), w'))"

text \<open>\<^verbatim>\<open>s.startsWith(prefix)\<close>\<close>

definition startsWith :: "string \<Rightarrow> string \<Rightarrow> bool" where
  "startsWith s prefix \<longleftrightarrow> take (length prefix) s = prefix"

definition normalizedPath :: "string \<Rightarrow> string" where
  "normalizedPath p = (if startsWith p ''/'' then p else ''/'' @ p)"

text \<open>
  The loop over \<^verbatim>\<open>Object.entries(query)\<close>, which ends at the first value that
  \<^verbatim>\<open>String\<close> throws on (\<open>None\<close>).
\<close>

fun query_params ::
  "(string \<times> jsv) list \<Rightarrow> url_search_params \<Rightarrow> url_search_params option" where
  "query_params [] params = Some params"
| "query_params ((key, v) # rest) params =
     (if v = Undefined \<or> v = Null then query_params rest params
      else case js_String v of
             None \<Rightarrow> None
           | Some s \<Rightarrow> query_params rest (params_set params key s))"

definition buildPathWithQuery ::
  "string \<Rightarrow> (string \<times> jsv) list option \<Rightarrow> failure + string" where
  "buildPathWithQuery p q =
     (case q of
        None \<Rightarrow> Inr (normalizedPath p)
      | Some entries \<Rightarrow>
          (case query_params entries [] of
             None \<Rightarrow> Inl TypeError
           | Some params \<Rightarrow>
               let queryString = params_toString params
               in Inr (if queryString \<noteq> [] then normalizedPath p @ ''?'' @ queryString
                       else normalizedPath p)))"

definition dispatchRequest ::
  "'w Fetch \<Rightarrow> ClientRequestConfig \<Rightarrow> 'w \<Rightarrow> (failure + jsv) \<times> 'w" where
  "dispatchRequest this config w =
     (case buildPathWithQuery (path config) (query config) of
        Inl error \<Rightarrow> (Inl error, w)
      | Inr path' \<Rightarrow> executeRequest this path' config w)"

definition getJson :: "'w Fetch \<Rightarrow> string \<Rightarrow> 'w \<Rightarrow> (failure + jsv) \<times> 'w" where
  "getJson this p =
     dispatchRequest this
       \<lparr>path = p, req_method = Some ''GET'', req_body = Undefined, query = None,
        req_headers = None\<rparr>"

definition postJson :: "'w Fetch \<Rightarrow> string \<Rightarrow> jsv \<Rightarrow> 'w \<Rightarrow> (failure + jsv) \<times> 'w" where
  "postJson this p b =
     dispatchRequest this
       \<lparr>path = p, req_method = Some ''POST'', req_body = b, query = None,
        req_headers = None\<rparr>"

subsection \<open>The methods of the client\<close>

definition quotes :: "'w Fetch \<Rightarrow> jsv \<Rightarrow> 'w \<Rightarrow> (failure + jsv) \<times> 'w" where
  "quotes this request = postJson this ''/v1/quotes'' request"

text \<open>\<^verbatim>\<open>/^0x[0-9a-fA-F]+$/.test(value)\<close>\<close>

definition hex_digit :: "char \<Rightarrow> bool" where
  "hex_digit c \<longleftrightarrow> c \<in> set ''0123456789abcdefABCDEF''"

definition isHexLike :: "string \<Rightarrow> bool" where
  "isHexLike v \<longleftrightarrow> take 2 v = ''0x'' \<and> drop 2 v \<noteq> [] \<and> list_all hex_digit (drop 2 v)"

definition getToken_path :: "js_number \<Rightarrow> string \<Rightarrow> string" where
  "getToken_path chainId identifier =
     (let encodedIdentifier = encodeURIComponent identifier
      in if isHexLike identifier
         then ''/v1/tokens/'' @ Number_toString chainId @ ''/'' @ encodedIdentifier
         else ''/v1/tokens/'' @ Number_toString chainId @ ''/symbol/'' @ encodedIdentifier)"

definition getToken :: "'w Fetch \<Rightarrow> js_number \<Rightarrow> string \<Rightarrow> 'w \<Rightarrow> (failure + jsv) \<times> 'w" where
  "getToken this chainId identifier w =
     (case getJson this (getToken_path chainId identifier) w of
        (Inr token, w') \<Rightarrow> (Inr token, w')
      | (Inl error, w') \<Rightarrow>
          (case error of
             ApiFailure e \<Rightarrow>
               if status e = 404 \<or> status e = 400 then (Inr Null, w') else (Inl error, w')
           | _ \<Rightarrow> (Inl error, w')))"

definition getChains :: "'w Fetch \<Rightarrow> 'w \<Rightarrow> (failure + jsv) \<times> 'w" where
  "getChains this = getJson this ''/v1/chains''"

definition getIntentStatus :: "'w Fetch \<Rightarrow> string \<Rightarrow> 'w \<Rightarrow> (failure + jsv) \<times> 'w" where
  "getIntentStatus this intent = getJson this (''/v1/intent/'' @ encodeURIComponent intent)"

definition getIntentByDeposit ::
  "'w Fetch \<Rightarrow> js_number \<Rightarrow> string \<Rightarrow> 'w \<Rightarrow> (failure + jsv) \<times> 'w" where
  "getIntentByDeposit this chainId txHash w =
     (case getJson this
             (''/v1/intent/by-deposit/'' @ Number_toString chainId @ ''/'' @ encodeURIComponent txHash) w of
        (Inr deposit, w') \<Rightarrow> (Inr deposit, w')
      | (Inl error, w') \<Rightarrow>
          (case error of
             ApiFailure e \<Rightarrow> if status e = 404 then (Inr Null, w') else (Inl error, w')
           | _ \<Rightarrow> (Inl error, w')))"

definition submitDeposit :: "'w Fetch \<Rightarrow> jsv \<Rightarrow> 'w \<Rightarrow> (failure + bool) \<times> 'w" where
  "submitDeposit this request w =
     (case postJson this ''/v1/deposits/submit'' request w of
        (Inl error, w') \<Rightarrow> (Inl error, w')
      | (Inr response, w') \<Rightarrow>
          if \<not> truthy response then (Inr False, w')
          else (case member response ''status'' of
                  Inl error \<Rightarrow> (Inl error, w')
                | Inr s \<Rightarrow> (Inr (s = Str ''accepted''), w')))"

subsection \<open>searchTokens\<close>

text \<open>
  The async generator object. It is suspended before the first statement, or at the
  \<^verbatim>\<open>yield\<close> (holding the local \<^verbatim>\<open>page\<close>), or it has finished. The request is the list
  of the own properties of the \<^verbatim>\<open>SearchTokensRequest\<close> object.
\<close>

datatype gen_state = Start | Yielded jsv | Done

datatype iter_result = IterValue jsv | IterDone | IterThrow failure

text \<open>The loop body from \<^verbatim>\<open>do {\<close> to the \<^verbatim>\<open>yield\<close>, run with the current cursor.\<close>

definition searchTokens_fetch ::
  "'w Fetch \<Rightarrow> (string \<times> jsv) list \<Rightarrow> jsv \<Rightarrow> 'w \<Rightarrow> (iter_result \<times> gen_state) \<times> 'w" where
  "searchTokens_fetch this request cursor w =
     (let payload = Obj (obj_set request ''cursor'' cursor)
      in case postJson this ''/v1/tokens/search'' payload w of
           (Inl error, w') \<Rightarrow> ((IterThrow error, Done), w')
         | (Inr page, w') \<Rightarrow>
             (case member page ''data'' of
                Inl error \<Rightarrow> ((IterThrow error, Done), w')
              | Inr batch \<Rightarrow> ((IterValue batch, Yielded page), w')))"

text \<open>One call of \<^verbatim>\<open>next()\<close>: the generator runs to its next \<^verbatim>\<open>yield\<close>, return or throw.\<close>

fun searchTokens_next ::
  "'w Fetch \<Rightarrow> (string \<times> jsv) list \<Rightarrow> gen_state \<Rightarrow> 'w \<Rightarrow> (iter_result \<times> gen_state) \<times> 'w" where
  "searchTokens_next this request Start w =
     searchTokens_fetch this request (own_prop (Obj request) ''cursor'') w"
| "searchTokens_next this request (Yielded page) w =
     (case member page ''cursor'' of
        Inl error \<Rightarrow> ((IterThrow error, Done), w)
      | Inr c \<Rightarrow>
          let cursor = nullish_coalesce c Undefined
          in if cursor \<noteq> Undefined then searchTokens_fetch this request cursor w
             else ((IterDone, Done), w))"
| "searchTokens_next this request Done w = ((IterDone, Done), w)"

text \<open>
  \<^verbatim>\<open>for await (const page of client.searchTokens(request)) pages.push(page)\<close>: the
  batches pushed, the error the loop ended with if any, and the world after it. The
  loop runs for ever against a server that never omits the cursor; then the value is
  \<open>None\<close>.
\<close>

partial_function (option) for_await ::
  "'w Fetch \<Rightarrow> (string \<times> jsv) list \<Rightarrow> gen_state \<Rightarrow> jsv list \<Rightarrow> 'w
     \<Rightarrow> (jsv list \<times> failure option \<times> 'w) option" where
  "for_await this request gen pages w =
     (case searchTokens_next this request gen w of
        ((IterValue batch, gen'), w') \<Rightarrow> for_await this request gen' (pages @ [batch]) w'
      | ((IterDone, gen'), w') \<Rightarrow> Some (pages, None, w')
      | ((IterThrow error, gen'), w') \<Rightarrow> Some (pages, Some error, w'))"

declare for_await.simps [code]

definition consume_searchTokens ::
  "'w Fetch \<Rightarrow> (string \<times> jsv) list \<Rightarrow> 'w \<Rightarrow> (jsv list \<times> failure option \<times> 'w) option" where
  "consume_searchTokens this request w = for_await this request Start [] w"

section \<open>A scripted transport\<close>

text \<open>
  The transport boundary as the test suite's \<^verbatim>\<open>createMockFetch\<close> has it: canned
  outcomes keyed to call order and a log of the calls. An outcome is a response or,
  beyond what the test suite cans, a rejection. With no outcome left the call is
  rejected and not logged.
\<close>

record mock_state =
  responses :: "(thrown + response) list"
  calls :: "(string \<times> request_init) list"

definition mockFetch :: "mock_state FetchLike" where
  "mockFetch input init w =
     (case responses w of
        [] \<Rightarrow> (Inl (ThrownOther (ErrorInstance ''No mock response left for fetch call'')), w)
      | responseConfig # rest \<Rightarrow>
          (responseConfig, \<lparr>responses = rest, calls = calls w @ [(input, init)]\<rparr>))"

text \<open>
  The \<^verbatim>\<open>Response\<close> the mock builds from a status, a body and extra headers, for a
  status, a body and header names that \<^verbatim>\<open>new Response(...)\<close> accepts: it has the empty
  status text, its headers are those of the object the mock spreads, and its body
  decodes to the canned body, to \<^verbatim>\<open>undefined\<close> when there is none.
\<close>

definition MockResponse :: "int \<Rightarrow> jsv \<Rightarrow> (string \<times> string) list \<Rightarrow> response" where
  "MockResponse st b hs =
     \<lparr>resp_status = st, statusText = [],
      resp_headers = Headers (obj_spread [(''content-type'', ''application/json'')] hs),
      json = b\<rparr>"

section \<open>Vocabulary of the statements\<close>

text \<open>
  The init that reaches \<^verbatim>\<open>fetchImpl\<close> for a dispatched request when no interceptor
  rewrites it.
\<close>

definition sent_init :: "'w Fetch \<Rightarrow> ClientRequestConfig \<Rightarrow> request_init" where
  "sent_init client config =
     finalInit_of client
       (if (case req_method config of Some m \<Rightarrow> m | None \<Rightarrow> ''GET'') = ''GET''
        then get_init (execute_init config)
        else post_init (req_body config) (execute_init config))"

text \<open>The call \<^verbatim>\<open>searchTokens\<close> makes for the page at a cursor.\<close>

definition search_call :: "'w Fetch \<Rightarrow> (string \<times> jsv) list \<Rightarrow> jsv \<Rightarrow> string \<times> request_init" where
  "search_call client request c =
     (fullUrl_of client ''/v1/tokens/search'',
      sent_init client
        \<lparr>path = ''/v1/tokens/search'', req_method = Some ''POST'',
         req_body = Obj (obj_set request ''cursor'' c), query = None, req_headers = None\<rparr>)"

text \<open>What is left of the \<^verbatim>\<open>for await\<close> loop once the generator enters its loop body.\<close>

definition for_await_fetch ::
  "'w Fetch \<Rightarrow> (string \<times> jsv) list \<Rightarrow> jsv \<Rightarrow> jsv list \<Rightarrow> 'w
     \<Rightarrow> (jsv list \<times> failure option \<times> 'w) option" where
  "for_await_fetch this request cursor pages w =
     (case searchTokens_fetch this request cursor w of
        ((IterValue batch, gen'), w') \<Rightarrow> for_await this request gen' (pages @ [batch]) w'
      | ((IterDone, gen'), w') \<Rightarrow> Some (pages, None, w')
      | ((IterThrow error, gen'), w') \<Rightarrow> Some (pages, Some error, w'))"

text \<open>
  The data of the test suite: its base address, and the two pages, the request and the
  failing response of its cases (tokens cut down to their symbol).
\<close>

definition test_config :: "mock_state HyperstreamClientConfig" where
  "test_config =
     \<lparr>baseUrl = ''https://api.test.hyperstream.xyz'', config_headers = None,
      fetch = Some mockFetch, userAgent = None\<rparr>"

definition test_client :: "mock_state Fetch" where
  "test_client =
     \<lparr>baseURL = Some ''https://api.test.hyperstream.xyz'', headers = [],
      requestInterceptors = [], responseInterceptors = [], fetchImpl = mockFetch\<rparr>"

definition test_request :: "(string \<times> jsv) list" where
  "test_request = [(''q'', Str ''USDC''), (''limit'', Num 1)]"

definition test_page1 :: response where
  "test_page1 =
     MockResponse 200 (Obj [(''data'', Arr [Obj [(''symbol'', Str ''TK1'')]]), (''cursor'', Num 99)]) []"

definition test_page2 :: response where
  "test_page2 = MockResponse 200 (Obj [(''data'', Arr [Obj [(''symbol'', Str ''TK2'')]])]) []"

definition test_boom :: response where
  "test_boom = MockResponse 500 (Obj [(''message'', Str ''Boom''), (''code'', Str ''ServerError'')]) []"

definition test_get :: ClientRequestConfig where
  "test_get =
     \<lparr>path = ''/v1/intent/0xdeadbeef'', req_method = Some ''GET'', req_body = Undefined,
      query = None, req_headers = None\<rparr>"

text \<open>A \<^verbatim>\<open>HyperstreamApiError\<close> that a transport given in the configuration throws itself.\<close>

definition test_upstream_error :: api_error where
  "test_upstream_error =
     \<lparr>message = ''Service Unavailable'', status = 503, code = Str ''Upstream'',
      details = Echoed Undefined, requestId = None, causeResponseBody = Undefined\<rparr>"

definition test_bad_request :: response where
  "test_bad_request = MockResponse 400 (Obj [(''message'', Str ''Validation failed'')]) []"

definition test_accepted :: response where
  "test_accepted = MockResponse 200 (Obj [(''status'', Str ''accepted'')]) []"

definition test_notfound :: response where
  "test_notfound = MockResponse 404 (Obj [(''message'', Str ''NotFound'')]) []"


text \<open>Configurations whose base address ends in slashes, and one that is the slash alone.\<close>

definition test_trailing_config :: "mock_state HyperstreamClientConfig" where
  "test_trailing_config =
     \<lparr>baseUrl = ''https://api.test.hyperstream.xyz//'', config_headers = None,
      fetch = Some mockFetch, userAgent = None\<rparr>"

definition test_root_config :: "mock_state HyperstreamClientConfig" where
  "test_root_config =
     \<lparr>baseUrl = ''/'', config_headers = None, fetch = Some mockFetch, userAgent = None\<rparr>"

definition test_root_client :: "mock_state Fetch" where
  "test_root_client =
     \<lparr>baseURL = Some ''/'', headers = [],
      requestInterceptors = [], responseInterceptors = [], fetchImpl = mockFetch\<rparr>"

text \<open>The words of the specification: the path has exactly one leading slash.\<close>

definition one_leading_slash :: "string \<Rightarrow> bool" where
  "one_leading_slash s \<longleftrightarrow> take 1 s = ''/'' \<and> take 1 (drop 1 s) \<noteq> ''/''"

text \<open>
  The words of the specification: the pairs of the query string, the entries whose value
  is neither \<^verbatim>\<open>undefined\<close> nor \<^verbatim>\<open>null\<close>, with the value as a string; \<open>None\<close> when
  one of these values has no string.
\<close>

definition kept_entries :: "(string \<times> jsv) list \<Rightarrow> url_search_params option" where
  "kept_entries entries =
     all_some (map (\<lambda>(k, v). map_option (Pair k) (js_String v))
                 (filter (\<lambda>(k, v). \<not> nullish v) entries))"

text \<open>The falsy values of JavaScript, those of them that are plain data.\<close>

definition falsy :: "jsv \<Rightarrow> bool" where
  "falsy v \<longleftrightarrow> v = Undefined \<or> v = Null \<or> v = Bool False \<or> v = Num 0 \<or> v = Str []"

text \<open>A field of a parsed body: the property of that name of an object, and nothing else.\<close>

definition field :: "jsv \<Rightarrow> string \<Rightarrow> jsv" where
  "field payload name =
     (case payload of
        Obj props \<Rightarrow> (case map_of props name of Some v \<Rightarrow> v | None \<Rightarrow> Undefined)
      | _ \<Rightarrow> Undefined)"

text \<open>
  The words of the specification: the message of the error for a parsed body and a status
  text, in the order of preference, a value counting unless it is falsy.
\<close>

definition chosen_message :: "jsv \<Rightarrow> string \<Rightarrow> jsv" where
  "chosen_message payload st =
     (if \<not> falsy (field payload ''message'') then field payload ''message''
      else if \<not> falsy (field payload ''error'') then field payload ''error''
      else if st \<noteq> [] then Str st
      else Str ''Hyperstream API request failed'')"

text \<open>
  Error bodies outside the declared \<^verbatim>\<open>HyperstreamErrorPayload\<close>: the message is an object
  with a \<^verbatim>\<open>toString\<close> property of its own, which has no string.
\<close>

definition test_unprintable :: response where
  "test_unprintable =
     MockResponse 500 (Obj [(''message'', Obj [(''toString'', Num 1)])]) []"

definition test_unprintable_notfound :: response where
  "test_unprintable_notfound =
     MockResponse 404 (Obj [(''message'', Obj [(''toString'', Num 1)])]) []"

text \<open>
  The configuration of the test suite's first case, with its \<^verbatim>\<open>x-app-id\<close> header, and a
  user agent added; the client constructed from it; a response that carries a request
  id under a header name in mixed case.
\<close>

definition test_app_config :: "mock_state HyperstreamClientConfig" where
  "test_app_config =
     \<lparr>baseUrl = ''https://api.test.hyperstream.xyz'',
      config_headers = Some [(''x-app-id'', ''sdk-tests'')],
      fetch = Some mockFetch, userAgent = Some ''sdk-tests/1.0''\<rparr>"

definition test_app_client :: "mock_state Fetch" where
  "test_app_client =
     \<lparr>baseURL = Some ''https://api.test.hyperstream.xyz'',
      headers = [(''x-app-id'', ''sdk-tests''), (''User-Agent'', ''sdk-tests/1.0'')],
      requestInterceptors = [], responseInterceptors = [], fetchImpl = mockFetch\<rparr>"

definition test_traced :: response where
  "test_traced =
     MockResponse 503 (Obj [(''error'', Str ''Unavailable'')]) [(''X-Request-Id'', ''req-1'')]"

text \<open>A request that carries a cursor of its own.\<close>

definition test_request_cursor :: "(string \<times> jsv) list" where
  "test_request_cursor = [(''q'', Str ''USDC''), (''cursor'', Num 5), (''limit'', Num 1)]"

section \<open>The client over the scripted transport\<close>

lemma client_new_fields:
  assumes "HyperstreamClient_new gf config = Inr client"
  shows "baseUrl config \<noteq> []"
    and "requestInterceptors client = []"
    and "responseInterceptors client = []"
    and "baseURL client = Some (normalizedBase (baseUrl config))"
    and "fetch config = Some f \<Longrightarrow> fetchImpl client = f"
  using assms
  by (auto simp: HyperstreamClient_new_def Fetch_new_def Let_def split: if_splits option.splits)

lemma mock_request:
  assumes "requestInterceptors client = []" "responseInterceptors client = []"
    and "fetchImpl client = mockFetch" and "responses w = out # rest"
  shows "Fetch_request client url init w =
           (map_sum id json_result out,
            \<lparr>responses = rest, calls = calls w @ [(fullUrl_of client url, finalInit_of client init)]\<rparr>)"
  using assms
  by (cases out) (simp_all add: Fetch_request_def mockFetch_def)

lemma mock_dispatch:
  assumes "requestInterceptors client = []" "responseInterceptors client = []"
    and "fetchImpl client = mockFetch" and "responses w = out # rest"
    and "buildPathWithQuery (path config) (query config) = Inr p"
  shows "dispatchRequest client config w =
           ((case out of
               Inl t \<Rightarrow> Inl (normalizeTransportError t)
             | Inr r \<Rightarrow> if response_ok r then Inr (json r)
                        else Inl (constructed (error_of_result (json_result r)))),
            \<lparr>responses = rest,
             calls = calls w @ [(fullUrl_of client p, sent_init client config)]\<rparr>)"
  using assms
  by (cases out)
     (simp_all add: dispatchRequest_def executeRequest_def transport_result_def transport_get_def
        transport_post_def Fetch_get_def Fetch_post_def mock_request sent_init_def Let_def
        json_result_def)

lemma for_await_Start:
  "for_await client request Start acc w =
     for_await_fetch client request (own_prop (Obj request) ''cursor'') acc w"
  by (subst for_await.simps) (simp add: for_await_fetch_def)

lemma for_await_Yielded_more:
  assumes "\<not> nullish (own_prop page ''cursor'')"
  shows "for_await client request (Yielded page) acc w =
           for_await_fetch client request (own_prop page ''cursor'') acc w"
proof -
  from assms have "\<not> nullish page" by (cases page) simp_all
  with assms show ?thesis
    by (subst for_await.simps)
       (auto simp: for_await_fetch_def member_def nullish_coalesce_def Let_def)
qed

lemma for_await_Yielded_last:
  assumes "\<not> nullish page" "nullish (own_prop page ''cursor'')"
  shows "for_await client request (Yielded page) acc w = Some (acc, None, w)"
  using assms
  by (subst for_await.simps) (auto simp: member_def nullish_coalesce_def Let_def)

lemma mock_search_fetch:
  assumes "requestInterceptors client = []" "responseInterceptors client = []"
    and "fetchImpl client = mockFetch" and "responses w = out # rest"
  shows "searchTokens_fetch client request c w =
           ((case out of
               Inl t \<Rightarrow> (IterThrow (normalizeTransportError t), Done)
             | Inr r \<Rightarrow>
                 if \<not> response_ok r
                 then (IterThrow (constructed (error_of_result (json_result r))), Done)
                 else if nullish (json r) then (IterThrow TypeError, Done)
                 else (IterValue (own_prop (json r) ''data''), Yielded (json r))),
            \<lparr>responses = rest, calls = calls w @ [search_call client request c]\<rparr>)"
  using assms
  by (cases out)
     (simp_all add: searchTokens_fetch_def postJson_def mock_dispatch [where p = "''/v1/tokens/search''"]
        member_def search_call_def buildPathWithQuery_def normalizedPath_def startsWith_def Let_def)

lemma for_await_fetch_pages:
  assumes cl: "requestInterceptors client = []" "responseInterceptors client = []"
      "fetchImpl client = mockFetch"
    and "\<forall>r \<in> set rs. response_ok r \<and> \<not> nullish (own_prop (json r) ''cursor'')"
    and "responses w = map Inr rs @ tail"
  shows "for_await_fetch client request c acc w =
           for_await_fetch client request (last (c # map (\<lambda>r. own_prop (json r) ''cursor'') rs))
             (acc @ map (\<lambda>r. own_prop (json r) ''data'') rs)
             \<lparr>responses = tail,
              calls = calls w @ map (search_call client request)
                        (butlast (c # map (\<lambda>r. own_prop (json r) ''cursor'') rs))\<rparr>"
  using assms(4,5)
proof (induction rs arbitrary: c acc w)
  case Nil
  then show ?case by (cases w) simp
next
  case (Cons r rs)
  from Cons.prems have ok: "response_ok r" and cur: "\<not> nullish (own_prop (json r) ''cursor'')"
    by simp_all
  from cur have nn: "\<not> nullish (json r)" by (cases "json r") simp_all
  let ?w1 = "\<lparr>responses = map Inr rs @ tail, calls = calls w @ [search_call client request c]\<rparr>"
  from Cons.prems have resp: "responses w = Inr r # (map Inr rs @ tail)" by simp
  have "for_await_fetch client request c acc w =
          for_await client request (Yielded (json r)) (acc @ [own_prop (json r) ''data'']) ?w1"
    by (simp add: for_await_fetch_def mock_search_fetch [OF cl resp] ok nn)
  also have "\<dots> = for_await_fetch client request (own_prop (json r) ''cursor'')
                     (acc @ [own_prop (json r) ''data'']) ?w1"
    by (rule for_await_Yielded_more [OF cur])
  also have "\<dots> = for_await_fetch client request
                     (last (own_prop (json r) ''cursor'' # map (\<lambda>r. own_prop (json r) ''cursor'') rs))
                     ((acc @ [own_prop (json r) ''data'']) @ map (\<lambda>r. own_prop (json r) ''data'') rs)
                     \<lparr>responses = tail,
                      calls = calls ?w1 @ map (search_call client request)
                        (butlast (own_prop (json r) ''cursor'' # map (\<lambda>r. own_prop (json r) ''cursor'') rs))\<rparr>"
    using Cons.prems by (intro Cons.IH) simp_all
  finally show ?case by simp
qed


lemma test_client_new: "HyperstreamClient_new None test_config = Inr test_client"
  by (simp add: HyperstreamClient_new_def Fetch_new_def test_config_def test_client_def
      normalizedBase_def strip_trailing_slashes_def)

lemma test_config_fetch: "fetch test_config = Some mockFetch"
  by (simp add: test_config_def)

lemma map_of_obj_set: "map_of (obj_set props k v) = (map_of props)(k \<mapsto> v)"
  by (induction props) auto

lemma search_call_parts:
  "init_body (snd (search_call client request c)) =
     Some (JSON_text (Obj (obj_set request ''cursor'' c)))"
  "init_method (snd (search_call client request c)) = Some ''POST''"
  "fst (search_call client request c) = fullUrl_of client ''/v1/tokens/search''"
  by (simp_all add: search_call_def sent_init_def finalInit_of_def post_init_def JSON_stringify_def)

lemma truthy_iff: "truthy v \<longleftrightarrow> \<not> falsy v"
  by (cases v) (simp_all add: falsy_def)

lemma field_own_prop: "field v k = own_prop v k"
  by (cases v) (simp_all add: field_def)

lemma opt_member_own_prop: "opt_member v k = own_prop v k"
  by (cases v) (simp_all add: opt_member_def)

lemma Fetch_request_result:
  assumes "Fetch_request this url init w = (Inr result, w')"
  shows "\<exists>r. result = json_result r"
  using assms
  by (auto simp: Fetch_request_def split: prod.splits sum.splits)

lemma transport_result_result:
  assumes "transport_result this p config w = (Inr result, w')"
  shows "\<exists>r. result = json_result r"
  using assms
  by (auto simp: transport_result_def transport_get_def transport_post_def Fetch_get_def
        Fetch_post_def Let_def split: if_splits prod.splits sum.splits
        dest: Fetch_request_result)

lemma error_of_result_eq:
  "error_of_result (json_result r) =
     (case js_String (chosen_message (json r) (statusText r)) of
        None \<Rightarrow> None
      | Some m \<Rightarrow>
          Some \<lparr>message = m,
                status = resp_status r,
                code = (if nullish (own_prop (json r) ''code'') then Undefined
                        else own_prop (json r) ''code''),
                details = Echoed (if nullish (own_prop (json r) ''details'') then json r
                                  else own_prop (json r) ''details''),
                requestId = headers_get (resp_headers r) ''x-request-id'',
                causeResponseBody = json r\<rparr>)"
  by (simp add: error_of_result_def json_result_def HyperstreamApiError_def Let_def
        opt_member_own_prop js_or_def nullish_coalesce_def chosen_message_def truthy_iff
        field_own_prop falsy_def)

lemma error_of_result_status:
  "error_of_result (json_result r) = Some e \<Longrightarrow> status e = resp_status r"
  by (auto simp: error_of_result_eq split: option.splits)

lemma test_client_fields:
  "requestInterceptors test_client = []" "responseInterceptors test_client = []"
  "fetchImpl test_client = mockFetch"
  by (simp_all add: test_client_def)

lemma plain_request:
  assumes "requestInterceptors client = []" "responseInterceptors client = []"
  shows "Fetch_request client url init w =
           (case fetchImpl client (fullUrl_of client url) (finalInit_of client init) w of
              (Inl e, w') \<Rightarrow> (Inl e, w')
            | (Inr r, w') \<Rightarrow> (Inr (json_result r), w'))"
  using assms by (simp add: Fetch_request_def split: prod.splits sum.splits)

lemma plain_dispatch:
  assumes "requestInterceptors client = []" "responseInterceptors client = []"
    and "buildPathWithQuery (path config) (query config) = Inr p"
  shows "dispatchRequest client config w =
           (case fetchImpl client (fullUrl_of client p) (sent_init client config) w of
              (Inl t, w') \<Rightarrow> (Inl (normalizeTransportError t), w')
            | (Inr r, w') \<Rightarrow>
                if response_ok r then (Inr (json r), w')
                else (Inl (constructed (error_of_result (json_result r))), w'))"
  by (simp add: assms(3) dispatchRequest_def executeRequest_def transport_result_def transport_get_def
        transport_post_def Fetch_get_def Fetch_post_def plain_request [OF assms(1,2)] sent_init_def
        Let_def json_result_def split: prod.splits sum.splits)

lemma mock_getJson:
  assumes "requestInterceptors client = []" "responseInterceptors client = []"
    and "fetchImpl client = mockFetch" and "responses w = Inr r # rest" and "\<not> response_ok r"
  shows "\<exists>w'. getJson client p w = (Inl (constructed (error_of_result (json_result r))), w')"
  using assms(5)
  by (simp add: getJson_def buildPathWithQuery_def mock_dispatch [OF assms(1-4), where p = "normalizedPath p"])

lemma hex_digit_unreserved: "hex_digit c \<Longrightarrow> uri_unreserved c"
  by (auto simp: hex_digit_def uri_unreserved_def alphanumeric_def)

lemma encodeURIComponent_unreserved:
  "\<forall>c \<in> set s. uri_unreserved c \<Longrightarrow> encodeURIComponent s = s"
  by (induction s) (simp_all add: encodeURIComponent_def)

lemma isHexLike_iff:
  "isHexLike v \<longleftrightarrow>
     (\<exists>ds. v = ''0x'' @ ds \<and> ds \<noteq> [] \<and> set ds \<subseteq> set ''0123456789abcdefABCDEF'')"
proof
  assume h: "isHexLike v"
  have "v = take 2 v @ drop 2 v" by simp
  with h have "v = ''0x'' @ drop 2 v" unfolding isHexLike_def by metis
  moreover from h have "drop 2 v \<noteq> []" unfolding isHexLike_def by blast
  moreover from h have "set (drop 2 v) \<subseteq> set ''0123456789abcdefABCDEF''"
    unfolding isHexLike_def list_all_iff hex_digit_def by blast
  ultimately show "\<exists>ds. v = ''0x'' @ ds \<and> ds \<noteq> [] \<and> set ds \<subseteq> set ''0123456789abcdefABCDEF''"
    by blast
next
  assume "\<exists>ds. v = ''0x'' @ ds \<and> ds \<noteq> [] \<and> set ds \<subseteq> set ''0123456789abcdefABCDEF''"
  then obtain ds where v: "v = ''0x'' @ ds" and "ds \<noteq> []" and "set ds \<subseteq> set ''0123456789abcdefABCDEF''"
    by blast
  moreover from v have "take 2 v = ''0x''" and "drop 2 v = ds" by simp_all
  ultimately show "isHexLike v"
    unfolding isHexLike_def list_all_iff hex_digit_def by (simp add: subset_iff)
qed

lemma isHexLike_encode:
  assumes "isHexLike v"
  shows "encodeURIComponent v = v"
proof -
  have u0: "uri_unreserved CHR ''0''" and ux: "uri_unreserved CHR ''x''"
    by (simp_all add: uri_unreserved_def alphanumeric_def)
  from assms have "\<forall>c \<in> set (drop 2 v). uri_unreserved c"
    unfolding isHexLike_def list_all_iff using hex_digit_unreserved by blast
  moreover have "\<forall>c \<in> set ''0x''. uri_unreserved c" using u0 ux by simp
  moreover from assms have "v = ''0x'' @ drop 2 v"
    unfolding isHexLike_def by (metis append_take_drop_id)
  ultimately have "\<forall>c \<in> set v. uri_unreserved c"
    by (metis Un_iff set_append)
  then show ?thesis by (rule encodeURIComponent_unreserved)
qed


lemma getToken_world: "snd (getToken client chainId ident w) = snd (getJson client (getToken_path chainId ident) w)"
  by (simp add: getToken_def split: prod.splits sum.splits failure.splits)

lemma strip_trailing_slashes_decomp:
  "\<exists>k. s = strip_trailing_slashes s @ replicate k CHR ''/''"
proof -
  let ?P = "\<lambda>c. c = CHR ''/''"
  have "s = rev (takeWhile ?P (rev s) @ dropWhile ?P (rev s))"
    by (simp only: takeWhile_dropWhile_id rev_rev_ident)
  then have s: "s = strip_trailing_slashes s @ rev (takeWhile ?P (rev s))"
    by (simp only: rev_append strip_trailing_slashes_def)
  have "\<forall>c \<in> set (rev (takeWhile ?P (rev s))). c = CHR ''/''"
    by (auto dest: set_takeWhileD)
  then have "rev (takeWhile ?P (rev s)) = replicate (length (rev (takeWhile ?P (rev s)))) CHR ''/''"
    by (metis replicate_length_same)
  with s show ?thesis by metis
qed

lemma strip_trailing_slashes_no_slash:
  "strip_trailing_slashes s \<noteq> t @ ''/''"
proof
  let ?P = "\<lambda>c. c = CHR ''/''"
  assume "strip_trailing_slashes s = t @ ''/''"
  then have "rev (rev (dropWhile ?P (rev s))) = rev (t @ ''/'')"
    by (simp add: strip_trailing_slashes_def)
  then have d: "dropWhile ?P (rev s) = CHR ''/'' # rev t" by simp
  then have "dropWhile ?P (rev s) \<noteq> []" by simp
  then have "\<not> ?P (hd (dropWhile ?P (rev s)))" by (rule hd_dropWhile)
  with d show False by simp
qed

lemma strip_trailing_slashes_Nil:
  "strip_trailing_slashes s = [] \<longleftrightarrow> set s \<subseteq> {CHR ''/''}"
  by (auto simp: strip_trailing_slashes_def)

lemma normalizedBase_cases:
  "normalizedBase b = (if set b \<subseteq> {CHR ''/''} then b else strip_trailing_slashes b)"
  using strip_trailing_slashes_Nil [of b] by (simp add: normalizedBase_def Let_def)

lemma normalizedBase_nonempty: "b \<noteq> [] \<Longrightarrow> normalizedBase b \<noteq> []"
  by (simp add: normalizedBase_def Let_def)

lemma params_set_fresh: "k \<notin> fst ` set ps \<Longrightarrow> params_set ps k v = ps @ [(k, v)]"
  by (induction ps) auto

lemma nullish_iff: "nullish v \<longleftrightarrow> v = Undefined \<or> v = Null"
  by (cases v) simp_all

lemma kept_entries_Cons:
  "kept_entries ((k, v) # entries) =
     (if nullish v then kept_entries entries
      else case js_String v of
             None \<Rightarrow> None
           | Some s \<Rightarrow> map_option ((#) (k, s)) (kept_entries entries))"
  by (cases "kept_entries entries")
     (simp_all add: kept_entries_def map_option_case split: option.splits)

lemma query_params_distinct:
  "distinct (map fst entries) \<Longrightarrow> fst ` set entries \<inter> fst ` set params = {} \<Longrightarrow>
     query_params entries params = map_option ((@) params) (kept_entries entries)"
proof (induction entries arbitrary: params)
  case Nil
  then show ?case by (simp add: kept_entries_def)
next
  case (Cons e entries)
  obtain k v where e: "e = (k, v)" by (cases e)
  from Cons.prems e have d: "distinct (map fst entries)" by simp
  show ?case
  proof (cases "nullish v")
    case True
    from Cons.prems e have "fst ` set entries \<inter> fst ` set params = {}" by auto
    with d have "query_params entries params = map_option ((@) params) (kept_entries entries)"
      by (rule Cons.IH)
    with True e show ?thesis
      by (simp add: kept_entries_Cons nullish_iff)
  next
    case False
    show ?thesis
    proof (cases "js_String v")
      case None
      with False e show ?thesis
        by (simp add: kept_entries_Cons nullish_iff)
    next
      case (Some s)
      from Cons.prems e have fresh: "k \<notin> fst ` set params" by auto
      from Cons.prems e have "fst ` set entries \<inter> fst ` set (params @ [(k, s)]) = {}"
        by auto
      with d have "query_params entries (params @ [(k, s)]) =
                     map_option ((@) (params @ [(k, s)])) (kept_entries entries)"
        by (rule Cons.IH)
      with False e Some fresh show ?thesis
        by (cases "kept_entries entries")
           (simp_all add: kept_entries_Cons nullish_iff params_set_fresh)
    qed
  qed
qed

lemma join_Nil_iff: "join sep (x # xs) = [] \<Longrightarrow> x = []"
  by (cases xs) simp_all

lemma params_toString_Nil: "params_toString ps = [] \<longleftrightarrow> ps = []"
proof
  assume h: "params_toString ps = []"
  show "ps = []"
  proof (cases ps)
    case Nil
    then show ?thesis .
  next
    case (Cons p qs)
    obtain k v where "p = (k, v)" by (cases p)
    with h Cons have "form_encode k @ ''='' @ form_encode v = []"
      by (auto simp: params_toString_def dest: join_Nil_iff)
    then show ?thesis by simp
  qed
next
  assume "ps = []"
  then show "params_toString ps = []" by (simp add: params_toString_def)
qed

section \<open>Requests as the transport sees them\<close>

text \<open>
  The first case of the test suite: the quote is posted to the base address followed by
  the path, with the body as JSON, and the headers of the client come with those of the
  call. The call returns the decoded body.
\<close>

lemma test_app_client_new: "HyperstreamClient_new None test_app_config = Inr test_app_client"
  by (simp add: HyperstreamClient_new_def Fetch_new_def test_app_config_def test_app_client_def
      normalizedBase_def strip_trailing_slashes_def)

lemma quotes_call:
  "quotes test_app_client (Obj [(''amount'', Str ''0x10'')])
     \<lparr>responses = [Inr (MockResponse 200 (Obj [(''intentId'', Str ''intent-123'')]) [])],
      calls = []\<rparr> =
   (Inr (Obj [(''intentId'', Str ''intent-123'')]),
    \<lparr>responses = [],
     calls = [(''https://api.test.hyperstream.xyz/v1/quotes'',
               \<lparr>init_method = Some ''POST'',
                init_body = Some (JSON_text (Obj [(''amount'', Str ''0x10'')])),
                init_headers =
                  Some [(''x-app-id'', ''sdk-tests''), (''User-Agent'', ''sdk-tests/1.0''),
                        (''Content-Type'', ''application/json''),
                        (''Accept'', ''application/json'')]\<rparr>)]\<rparr>)"
  by (simp add: quotes_def postJson_def dispatchRequest_def buildPathWithQuery_def
        normalizedPath_def startsWith_def executeRequest_def transport_result_def
        transport_post_def Fetch_post_def Fetch_request_def mockFetch_def test_app_client_def
        fullUrl_of_def finalInit_of_def post_init_def execute_init_def JSON_stringify_def
        obj_spread_def json_result_def response_ok_def MockResponse_def)

text \<open>
  A lookup is a \<^verbatim>\<open>GET\<close> with no body. The request id of the error is read from the
  header whatever the case of its name, and the message falls back to the \<^verbatim>\<open>error\<close>
  field.
\<close>

lemma getChains_call:
  "getChains test_client \<lparr>responses = [Inr test_traced], calls = []\<rparr> =
   (Inl (ApiFailure
           \<lparr>message = ''Unavailable'', status = 503, code = Undefined,
            details = Echoed (Obj [(''error'', Str ''Unavailable'')]),
            requestId = Some ''req-1'',
            causeResponseBody = Obj [(''error'', Str ''Unavailable'')]\<rparr>),
    \<lparr>responses = [],
     calls = [(''https://api.test.hyperstream.xyz/v1/chains'',
               \<lparr>init_method = Some ''GET'', init_body = None,
                init_headers = Some [(''Accept'', ''application/json'')]\<rparr>)]\<rparr>)"
  by (simp add: getChains_def getJson_def dispatchRequest_def buildPathWithQuery_def
        normalizedPath_def startsWith_def executeRequest_def transport_result_def
        transport_get_def Fetch_get_def Fetch_request_def mockFetch_def test_client_def
        fullUrl_of_def finalInit_of_def get_init_def execute_init_def obj_spread_def
        json_result_def response_ok_def test_traced_def MockResponse_def constructed_def
        error_of_result_def HyperstreamApiError_def opt_member_def js_or_def
        nullish_coalesce_def headers_get_def Headers_def lower_def lower_char_def Let_def)

text \<open>
  A body that is \<^verbatim>\<open>undefined\<close> has no JSON text; a header is found under its name in
  any case, all its values together; \<^verbatim>\<open>set\<close> leaves one pair of a name.
\<close>

lemma post_init_undefined: "init_body (post_init Undefined init) = None"
  by (simp add: post_init_def JSON_stringify_def)

lemma headers_get_any_case:
  "headers_get (Headers [(''X-Request-Id'', ''req-1''), (''x-request-id'', ''req-2'')])
     ''X-REQUEST-ID'' = Some ''req-1, req-2''"
  by (simp add: headers_get_def Headers_def lower_def lower_char_def)

lemma params_set_replaces:
  "params_set [(''a'', ''1''), (''b'', ''2''), (''a'', ''3'')] ''a'' ''4'' = [(''a'', ''4''), (''b'', ''2'')]"
  by simp

text \<open>
  The strings of values: an array joins its elements with commas, \<^verbatim>\<open>null\<close> and
  \<^verbatim>\<open>undefined\<close> empty among them, a negative number keeps its sign, and an own
  \<^verbatim>\<open>toString\<close> that is no function makes the conversion throw. The marks that
  \<^verbatim>\<open>encodeURIComponent\<close> leaves as they are.
\<close>

lemma js_String_values:
  "js_String (Arr [Num 1, Null, Bool True, Undefined, Arr [Str ''a'', Num (- 42)], Obj []]) =
     Some ''1,,true,,a,-42,[object Object]''"
  "js_String (Bool False) = Some ''false''"
  "js_String (Arr [Obj [(''toString'', Null)]]) = None"
  by (simp_all add: Number_toString_def show_int_def show_nat.simps digit_char_def)

lemma encodeURIComponent_marks:
  "encodeURIComponent ''a-_.!~*()b/ ?'' = ''a-_.!~*()b%2F%20%3F''"
  by (simp add: encodeURIComponent_def uri_unreserved_def alphanumeric_def percent_encode_def
        hex_char_def)

section \<open>Pagination\<close>

text \<open>
  Claim C1. Against a transport that serves a finite sequence of pages, every page but
  the last carrying a cursor and the last one having no \<^verbatim>\<open>cursor\<close> field, consuming
  \<^verbatim>\<open>searchTokens\<close> ends normally with one batch per page, each the \<^verbatim>\<open>data\<close> of its
  page, in the order served. The generator makes one call per page, the first with the
  cursor of the request and each next one with the cursor of the page before, and none
  after the page without a cursor: what the transport had left to serve stays unserved.
\<close>

theorem searchTokens_yields_every_page:
  assumes "HyperstreamClient_new gf config = Inr client" and "fetch config = Some mockFetch"
    and "\<forall>r \<in> set rs. response_ok r \<and> \<not> nullish (own_prop (json r) ''cursor'')"
    and "response_ok l" and "json l = Obj props" and "map_of props ''cursor'' = None"
    and "responses w = map Inr (rs @ [l]) @ rest"
  shows "consume_searchTokens client request w =
           Some (map (\<lambda>r. own_prop (json r) ''data'') (rs @ [l]), None,
                 \<lparr>responses = rest,
                  calls = calls w @ map (search_call client request)
                    (own_prop (Obj request) ''cursor'' # map (\<lambda>r. own_prop (json r) ''cursor'') rs)\<rparr>)"
proof -
  note cl = client_new_fields(2,3) [OF assms(1)] client_new_fields(5) [OF assms(1,2)]
  define cs where "cs = own_prop (Obj request) ''cursor'' # map (\<lambda>r. own_prop (json r) ''cursor'') rs"
  define w1 where "w1 = \<lparr>responses = Inr l # rest,
                          calls = calls w @ map (search_call client request) (butlast cs)\<rparr>"
  define acc where "acc = map (\<lambda>r. own_prop (json r) ''data'') rs"
  from assms(7) have resp: "responses w = map Inr rs @ (Inr l # rest)" by simp
  have nn: "\<not> nullish (json l)" and nocur: "nullish (own_prop (json l) ''cursor'')"
    using assms(5,6) by simp_all
  have resp1: "responses w1 = Inr l # rest" by (simp add: w1_def)
  have split: "butlast cs @ [last cs] = cs" by (rule append_butlast_last_id) (simp add: cs_def)
  have "map (search_call client request) (butlast cs @ [last cs]) = map (search_call client request) cs"
    by (simp only: split)
  then have calls2: "calls w1 @ [search_call client request (last cs)] =
                       calls w @ map (search_call client request) cs"
    by (simp add: w1_def)
  have "consume_searchTokens client request w =
          for_await_fetch client request (own_prop (Obj request) ''cursor'') [] w"
    by (simp only: consume_searchTokens_def for_await_Start)
  also have "\<dots> = for_await_fetch client request (last cs) ([] @ acc) w1"
    unfolding cs_def w1_def acc_def by (rule for_await_fetch_pages [OF cl assms(3) resp])
  also have "\<dots> = for_await client request (Yielded (json l)) (acc @ [own_prop (json l) ''data''])
                     \<lparr>responses = rest, calls = calls w1 @ [search_call client request (last cs)]\<rparr>"
    by (simp add: for_await_fetch_def mock_search_fetch [OF cl resp1] assms(4) nn)
  also have "\<dots> = Some (acc @ [own_prop (json l) ''data''], None,
                     \<lparr>responses = rest, calls = calls w1 @ [search_call client request (last cs)]\<rparr>)"
    by (rule for_await_Yielded_last [OF nn nocur])
  finally show ?thesis
    by (simp only: calls2) (simp add: acc_def cs_def)
qed


theorem searchTokens_yields_every_page_witness:
  "consume_searchTokens test_client test_request
       \<lparr>responses = [Inr test_page1, Inr test_page2], calls = []\<rparr> =
     Some ([Arr [Obj [(''symbol'', Str ''TK1'')]], Arr [Obj [(''symbol'', Str ''TK2'')]]], None,
           \<lparr>responses = [],
            calls = [search_call test_client test_request Undefined,
                     search_call test_client test_request (Num 99)]\<rparr>)"
proof -
  have h3: "\<forall>r \<in> set [test_page1]. response_ok r \<and> \<not> nullish (own_prop (json r) ''cursor'')"
    by (simp add: test_page1_def MockResponse_def response_ok_def)
  have h4: "response_ok test_page2"
    by (simp add: test_page2_def MockResponse_def response_ok_def)
  have h5: "json test_page2 = Obj [(''data'', Arr [Obj [(''symbol'', Str ''TK2'')]])]"
    by (simp add: test_page2_def MockResponse_def)
  have h6: "map_of [(''data'', Arr [Obj [(''symbol'', Str ''TK2'')]])] ''cursor'' = None"
    by simp
  have h7: "responses \<lparr>responses = [Inr test_page1, Inr test_page2], calls = []\<rparr> =
              map Inr ([test_page1] @ [test_page2]) @ []"
    by simp
  have c0: "map_of test_request ''cursor'' = None"
    by (simp add: test_request_def)
  have d1: "own_prop (json test_page1) ''data'' = Arr [Obj [(''symbol'', Str ''TK1'')]]"
    and c1: "own_prop (json test_page1) ''cursor'' = Num 99"
    by (simp_all add: test_page1_def MockResponse_def)
  have d2: "own_prop (json test_page2) ''data'' = Arr [Obj [(''symbol'', Str ''TK2'')]]"
    by (simp add: test_page2_def MockResponse_def)
  show ?thesis
    using searchTokens_yields_every_page
            [OF test_client_new test_config_fetch h3 h4 h5 h6 h7, of test_request]
    by (simp add: c0 d1 c1 d2)
qed

text \<open>
  Claim C2. When the transport serves \<open>N - 1\<close> pages that carry a cursor and the
  \<open>N\<close>-th call fails, by a rejection of the transport or by a response outside 2xx,
  consuming \<^verbatim>\<open>searchTokens\<close> gives the \<open>N - 1\<close> batches of those pages and then
  fails with the \<^verbatim>\<open>HyperstreamApiError\<close> of that \<open>N\<close>-th dispatch. The generator has
  made \<open>N\<close> calls: the failed one is not repeated and nothing is asked after it.
\<close>

theorem searchTokens_fails_at_failed_page:
  assumes "HyperstreamClient_new gf config = Inr client" and "fetch config = Some mockFetch"
    and "\<forall>r \<in> set rs. response_ok r \<and> \<not> nullish (own_prop (json r) ''cursor'')"
    and "responses w = map Inr rs @ bad # rest"
    and "case bad of
           Inl t \<Rightarrow> normalizeTransportError t = ApiFailure e
         | Inr r \<Rightarrow> \<not> response_ok r \<and> error_of_result (json_result r) = Some e"
  shows "consume_searchTokens client request w =
           Some (map (\<lambda>r. own_prop (json r) ''data'') rs, Some (ApiFailure e),
                 \<lparr>responses = rest,
                  calls = calls w @ map (search_call client request)
                    (own_prop (Obj request) ''cursor'' # map (\<lambda>r. own_prop (json r) ''cursor'') rs)\<rparr>)"
proof -
  note cl = client_new_fields(2,3) [OF assms(1)] client_new_fields(5) [OF assms(1,2)]
  define cs where "cs = own_prop (Obj request) ''cursor'' # map (\<lambda>r. own_prop (json r) ''cursor'') rs"
  define w1 where "w1 = \<lparr>responses = bad # rest,
                          calls = calls w @ map (search_call client request) (butlast cs)\<rparr>"
  define acc where "acc = map (\<lambda>r. own_prop (json r) ''data'') rs"
  have resp1: "responses w1 = bad # rest" by (simp add: w1_def)
  have split: "butlast cs @ [last cs] = cs" by (rule append_butlast_last_id) (simp add: cs_def)
  have "map (search_call client request) (butlast cs @ [last cs]) = map (search_call client request) cs"
    by (simp only: split)
  then have calls2: "calls w1 @ [search_call client request (last cs)] =
                       calls w @ map (search_call client request) cs"
    by (simp add: w1_def)
  have "consume_searchTokens client request w =
          for_await_fetch client request (own_prop (Obj request) ''cursor'') [] w"
    by (simp only: consume_searchTokens_def for_await_Start)
  also have "\<dots> = for_await_fetch client request (last cs) ([] @ acc) w1"
    unfolding cs_def w1_def acc_def by (rule for_await_fetch_pages [OF cl assms(3,4)])
  also have "\<dots> = Some (acc, Some (ApiFailure e),
                     \<lparr>responses = rest, calls = calls w1 @ [search_call client request (last cs)]\<rparr>)"
    using assms(5)
    by (cases bad) (simp_all add: for_await_fetch_def mock_search_fetch [OF cl resp1] constructed_def)
  finally show ?thesis
    by (simp only: calls2) (simp add: acc_def cs_def)
qed

theorem searchTokens_fails_at_failed_page_witness:
  "consume_searchTokens test_client test_request
       \<lparr>responses = [Inr test_page1, Inr test_boom, Inr test_page2], calls = []\<rparr> =
     Some ([Arr [Obj [(''symbol'', Str ''TK1'')]]],
           Some (ApiFailure
                   \<lparr>message = ''Boom'', status = 500, code = Str ''ServerError'',
                    details = Echoed (Obj [(''message'', Str ''Boom''), (''code'', Str ''ServerError'')]),
                    requestId = None,
                    causeResponseBody =
                      Obj [(''message'', Str ''Boom''), (''code'', Str ''ServerError'')]\<rparr>),
           \<lparr>responses = [Inr test_page2],
            calls = [search_call test_client test_request Undefined,
                     search_call test_client test_request (Num 99)]\<rparr>)"
proof -
  have h3: "\<forall>r \<in> set [test_page1]. response_ok r \<and> \<not> nullish (own_prop (json r) ''cursor'')"
    by (simp add: test_page1_def MockResponse_def response_ok_def)
  have h4: "responses \<lparr>responses = [Inr test_page1, Inr test_boom, Inr test_page2], calls = []\<rparr> =
              map Inr [test_page1] @ Inr test_boom # [Inr test_page2]"
    by simp
  have h5: "case Inr test_boom of
              Inl t \<Rightarrow> normalizeTransportError t =
                ApiFailure
                  \<lparr>message = ''Boom'', status = 500, code = Str ''ServerError'',
                   details = Echoed (Obj [(''message'', Str ''Boom''), (''code'', Str ''ServerError'')]),
                   requestId = None,
                   causeResponseBody =
                     Obj [(''message'', Str ''Boom''), (''code'', Str ''ServerError'')]\<rparr>
            | Inr r \<Rightarrow> \<not> response_ok r \<and>
                error_of_result (json_result r) =
                  Some \<lparr>message = ''Boom'', status = 500, code = Str ''ServerError'',
                        details = Echoed (Obj [(''message'', Str ''Boom''), (''code'', Str ''ServerError'')]),
                        requestId = None,
                        causeResponseBody =
                          Obj [(''message'', Str ''Boom''), (''code'', Str ''ServerError'')]\<rparr>"
    by (simp add: error_of_result_eq chosen_message_def field_def falsy_def test_boom_def MockResponse_def
          response_ok_def headers_get_def Headers_def obj_spread_def lower_def lower_char_def)
  have c0: "map_of test_request ''cursor'' = None"
    by (simp add: test_request_def)
  have d1: "own_prop (json test_page1) ''data'' = Arr [Obj [(''symbol'', Str ''TK1'')]]"
    and c1: "own_prop (json test_page1) ''cursor'' = Num 99"
    by (simp_all add: test_page1_def MockResponse_def)
  show ?thesis
    using searchTokens_fails_at_failed_page
            [OF test_client_new test_config_fetch h3 h4 h5, of test_request]
    by (simp add: c0 d1 c1)
qed

text \<open>
  Claim C10. When the generator is resumed after the \<^verbatim>\<open>yield\<close> of a page, the cursor of
  the page decides by being nullish, not by being falsy. A page whose cursor is the
  number 0 does not end the sequence: the next call goes out, a \<^verbatim>\<open>POST\<close> to the search
  path whose body is the request with its \<^verbatim>\<open>cursor\<close> property set to 0, whatever cursor
  the request came with, and every other property as it was. A page whose cursor is
  absent or \<^verbatim>\<open>null\<close> ends the sequence with no call. Every other cursor is the cursor of
  the next call.
\<close>

theorem searchTokens_cursor_zero_continues:
  assumes "HyperstreamClient_new gf config = Inr client" and "fetch config = Some mockFetch"
    and "responses w = out # rest"
    and "\<not> nullish page"
  shows "(own_prop page ''cursor'' = Num 0 \<longrightarrow>
            fst (fst (searchTokens_next client request (Yielded page) w)) \<noteq> IterDone \<and>
            (\<exists>init body.
               snd (searchTokens_next client request (Yielded page) w) =
                 \<lparr>responses = rest,
                  calls = calls w @ [(fullUrl_of client ''/v1/tokens/search'', init)]\<rparr> \<and>
               init_method init = Some ''POST'' \<and>
               init_body init = Some (JSON_text (Obj body)) \<and>
               map_of body = (map_of request)(''cursor'' \<mapsto> Num 0))) \<and>
         (nullish (own_prop page ''cursor'') \<longrightarrow>
            searchTokens_next client request (Yielded page) w = ((IterDone, Done), w)) \<and>
         (\<not> nullish (own_prop page ''cursor'') \<longrightarrow>
            searchTokens_next client request (Yielded page) w =
              searchTokens_fetch client request (own_prop page ''cursor'') w)"
proof -
  note cl = client_new_fields(2,3) [OF assms(1)] client_new_fields(5) [OF assms(1,2)]
  have a: "fst (fst (searchTokens_fetch client request c w)) \<noteq> IterDone" for c
    by (cases out) (simp_all add: mock_search_fetch [OF cl assms(3)])
  have b: "snd (searchTokens_fetch client request c w) =
      \<lparr>responses = rest, calls = calls w @ [search_call client request c]\<rparr>" for c
    by (simp add: mock_search_fetch [OF cl assms(3)])
  have c: "\<exists>init body.
             snd (searchTokens_fetch client request (Num 0) w) =
               \<lparr>responses = rest,
                calls = calls w @ [(fullUrl_of client ''/v1/tokens/search'', init)]\<rparr> \<and>
             init_method init = Some ''POST'' \<and>
             init_body init = Some (JSON_text (Obj body)) \<and>
             map_of body = (map_of request)(''cursor'' \<mapsto> Num 0)"
  proof (intro exI conjI)
    show "snd (searchTokens_fetch client request (Num 0) w) =
            \<lparr>responses = rest,
             calls = calls w @ [(fullUrl_of client ''/v1/tokens/search'',
                                 snd (search_call client request (Num 0)))]\<rparr>"
      using b [of "Num 0"] search_call_parts(3) [of client request "Num 0"]
      by (cases "search_call client request (Num 0)") simp
    show "init_method (snd (search_call client request (Num 0))) = Some ''POST''"
      by (rule search_call_parts(2))
    show "init_body (snd (search_call client request (Num 0))) =
            Some (JSON_text (Obj (obj_set request ''cursor'' (Num 0))))"
      by (rule search_call_parts(1))
    show "map_of (obj_set request ''cursor'' (Num 0)) = (map_of request)(''cursor'' \<mapsto> Num 0)"
      by (rule map_of_obj_set)
  qed
  from a b c show ?thesis
    using assms(4) by (auto simp: member_def nullish_coalesce_def Let_def)
qed

theorem searchTokens_cursor_zero_continues_witness:
  "fst (fst (searchTokens_next test_client test_request_cursor
               (Yielded (Obj [(''data'', Arr []), (''cursor'', Num 0)]))
               \<lparr>responses = [Inr test_page2], calls = []\<rparr>)) \<noteq> IterDone \<and>
   snd (searchTokens_next test_client test_request_cursor
          (Yielded (Obj [(''data'', Arr []), (''cursor'', Num 0)]))
          \<lparr>responses = [Inr test_page2], calls = []\<rparr>) =
     \<lparr>responses = [],
      calls = [(''https://api.test.hyperstream.xyz/v1/tokens/search'',
                \<lparr>init_method = Some ''POST'',
                 init_body =
                   Some (JSON_text
                           (Obj [(''q'', Str ''USDC''), (''cursor'', Num 0), (''limit'', Num 1)])),
                 init_headers =
                   Some [(''Content-Type'', ''application/json''),
                         (''Accept'', ''application/json'')]\<rparr>)]\<rparr>"
proof -
  have h3: "responses \<lparr>responses = [Inr test_page2], calls = []\<rparr> = Inr test_page2 # []"
    by simp
  have h4: "\<not> nullish (Obj [(''data'', Arr []), (''cursor'', Num 0)])"
    by simp
  have sc: "search_call test_client test_request_cursor (Num 0) =
      (''https://api.test.hyperstream.xyz/v1/tokens/search'',
       \<lparr>init_method = Some ''POST'',
        init_body =
          Some (JSON_text (Obj [(''q'', Str ''USDC''), (''cursor'', Num 0), (''limit'', Num 1)])),
        init_headers =
          Some [(''Content-Type'', ''application/json''), (''Accept'', ''application/json'')]\<rparr>)"
    by (simp add: search_call_def sent_init_def finalInit_of_def post_init_def execute_init_def
          JSON_stringify_def fullUrl_of_def test_client_def test_request_cursor_def obj_spread_def)
  from searchTokens_cursor_zero_continues
         [OF test_client_new test_config_fetch h3 h4, of test_request_cursor]
  show ?thesis
    by (simp add: member_def nullish_coalesce_def mock_search_fetch [OF test_client_fields h3] sc)
qed

section \<open>Errors\<close>

text \<open>
  Claim C3, as amended. Whatever the client and its transport, when the result the
  transport gives for a dispatched request has a status outside 200 to 299, the message
  of the error is chosen in the order: the \<^verbatim>\<open>message\<close> field of the parsed body, or else
  its \<^verbatim>\<open>error\<close> field, or else the status text of the response, or else the text
  \<^verbatim>\<open>Hyperstream API request failed\<close>, the first of these that is truthy. When the chosen
  value has a string, as every string, number and boolean has, the dispatch fails with a
  \<^verbatim>\<open>HyperstreamApiError\<close> whose status is the HTTP status, whose message is that string
  and whose code is the \<^verbatim>\<open>code\<close> field of the parsed body when the body has one that is
  not \<^verbatim>\<open>null\<close>. When the chosen value has no string, the \<^verbatim>\<open>TypeError\<close> of the conversion
  is what the dispatch fails with.
\<close>

theorem non_2xx_error_fields:
  assumes "buildPathWithQuery (path config) (query config) = Inr p"
    and "transport_result client p config w = (Inr result, w')"
    and "\<not> (200 \<le> res_status result \<and> res_status result \<le> 299)"
  shows "\<exists>r. raw result = Some r \<and>
           (case js_String (chosen_message (data result) (statusText r)) of
              Some m \<Rightarrow>
                \<exists>e. dispatchRequest client config w = (Inl (ApiFailure e), w') \<and>
                    status e = res_status result \<and>
                    message e = m \<and>
                    code e =
                      (if field (data result) ''code'' = Null then Undefined
                       else field (data result) ''code'')
            | None \<Rightarrow> dispatchRequest client config w = (Inl TypeError, w'))"
proof -
  from transport_result_result [OF assms(2)] obtain r where r: "result = json_result r" ..
  with assms(3) have "\<not> ok result"
    by (simp add: json_result_def response_ok_def)
  with assms(1,2) have d: "dispatchRequest client config w =
      (Inl (constructed (error_of_result (json_result r))), w')"
    by (simp add: dispatchRequest_def executeRequest_def r)
  have "raw result = Some r" "data result = json r" "res_status result = resp_status r"
    by (simp_all add: r json_result_def)
  with d show ?thesis
    by (cases "js_String (chosen_message (json r) (statusText r))")
       (auto simp: error_of_result_eq constructed_def field_own_prop nullish_iff)
qed

theorem non_2xx_error_fields_witness:
  "\<exists>e. dispatchRequest test_client test_get \<lparr>responses = [Inr test_boom], calls = []\<rparr> =
          (Inl (ApiFailure e),
           \<lparr>responses = [],
            calls = [(''https://api.test.hyperstream.xyz/v1/intent/0xdeadbeef'',
                      sent_init test_client test_get)]\<rparr>) \<and>
        status e = 500 \<and> message e = ''Boom'' \<and> code e = Str ''ServerError''"
proof -
  have h0: "buildPathWithQuery (path test_get) (query test_get) = Inr ''/v1/intent/0xdeadbeef''"
    by (simp add: test_get_def buildPathWithQuery_def normalizedPath_def startsWith_def)
  have h1: "transport_result test_client ''/v1/intent/0xdeadbeef''
              test_get \<lparr>responses = [Inr test_boom], calls = []\<rparr> =
            (Inr (json_result test_boom),
             \<lparr>responses = [],
              calls = [(''https://api.test.hyperstream.xyz/v1/intent/0xdeadbeef'',
                        sent_init test_client test_get)]\<rparr>)"
    by (simp add: transport_result_def transport_get_def Fetch_get_def
          mock_request [OF test_client_fields] sent_init_def)
       (simp add: test_get_def fullUrl_of_def test_client_def)
  have h2: "\<not> (200 \<le> res_status (json_result test_boom) \<and> res_status (json_result test_boom) \<le> 299)"
    by (simp add: json_result_def test_boom_def MockResponse_def)
  from non_2xx_error_fields [OF h0 h1 h2] show ?thesis
    by (auto simp: json_result_def test_boom_def MockResponse_def chosen_message_def field_def falsy_def)
qed

text \<open>
  The claim as first stated gives every response outside 2xx an error with the HTTP
  status. A response of status 500 whose body has for \<^verbatim>\<open>message\<close> an object with a
  \<^verbatim>\<open>toString\<close> property of its own, outside the declared \<^verbatim>\<open>HyperstreamErrorPayload\<close>,
  makes the constructor of the error throw: the call fails with a \<^verbatim>\<open>TypeError\<close>, which
  has no status.
\<close>

theorem non_2xx_unprintable_counterexample:
  "fst (getIntentStatus test_client ''0xdeadbeef''
          \<lparr>responses = [Inr test_unprintable], calls = []\<rparr>) = Inl TypeError \<and>
   resp_status test_unprintable = 500"
  by (simp add: getIntentStatus_def getJson_def buildPathWithQuery_def
        mock_dispatch [OF test_client_fields, where p = "normalizedPath (''/v1/intent/'' @ encodeURIComponent ''0xdeadbeef'')"]
        error_of_result_eq chosen_message_def field_def falsy_def constructed_def test_unprintable_def MockResponse_def
        response_ok_def)

text \<open>
  Claim C4, as amended. When the network call of a dispatched request rejects before
  giving a response, the dispatch fails with a \<^verbatim>\<open>HyperstreamApiError\<close>. If the value
  thrown is not itself a \<^verbatim>\<open>HyperstreamApiError\<close>, the error has status 0, the code
  \<^verbatim>\<open>TransportError\<close> and details that wrap the thrown value, and its message is the
  message of the thrown \<^verbatim>\<open>Error\<close>, or the text \<^verbatim>\<open>Hyperstream transport request failed\<close>
  when the thrown value is not an \<^verbatim>\<open>Error\<close>. A thrown \<^verbatim>\<open>HyperstreamApiError\<close> is passed
  on as it is. The network call is the one made for the path \<open>p\<close> that the request
  builds.
\<close>

theorem transport_failure_error:
  assumes "HyperstreamClient_new gf config = Inr client"
    and "buildPathWithQuery (path request) (query request) = Inr p"
    and "fetchImpl client (fullUrl_of client p) (sent_init client request) w = (Inl t, w')"
  shows "\<exists>e. dispatchRequest client request w = (Inl (ApiFailure e), w') \<and>
           (case t of
              ThrownApiError a \<Rightarrow> e = a
            | ThrownOther err \<Rightarrow>
                status e = 0 \<and> code e = Str ''TransportError'' \<and> details e = Wrapped err \<and>
                message e =
                  (case err of
                     ErrorInstance m \<Rightarrow> m
                   | NonError v \<Rightarrow> ''Hyperstream transport request failed''))"
proof -
  note cl = client_new_fields(2,3) [OF assms(1)]
  have "dispatchRequest client request w = (Inl (normalizeTransportError t), w')"
    by (simp add: plain_dispatch [OF cl assms(2)] assms(3))
  then show ?thesis
    by (auto simp: normalizeTransportError_def HyperstreamApiError_def constructed_def
          split: thrown.splits js_error.splits)
qed

theorem transport_failure_error_witness:
  "\<exists>e. dispatchRequest test_client test_get
          \<lparr>responses = [Inl (ThrownOther (ErrorInstance ''fetch failed''))], calls = []\<rparr> =
          (Inl (ApiFailure e),
           \<lparr>responses = [],
            calls = [(''https://api.test.hyperstream.xyz/v1/intent/0xdeadbeef'',
                      sent_init test_client test_get)]\<rparr>) \<and>
        status e = 0 \<and> code e = Str ''TransportError'' \<and>
        details e = Wrapped (ErrorInstance ''fetch failed'') \<and> message e = ''fetch failed''"
proof -
  have h1: "buildPathWithQuery (path test_get) (query test_get) = Inr ''/v1/intent/0xdeadbeef''"
    by (simp add: test_get_def buildPathWithQuery_def normalizedPath_def startsWith_def)
  have h2: "fetchImpl test_client
              (fullUrl_of test_client ''/v1/intent/0xdeadbeef'')
              (sent_init test_client test_get)
              \<lparr>responses = [Inl (ThrownOther (ErrorInstance ''fetch failed''))], calls = []\<rparr> =
            (Inl (ThrownOther (ErrorInstance ''fetch failed'')),
             \<lparr>responses = [],
              calls = [(''https://api.test.hyperstream.xyz/v1/intent/0xdeadbeef'',
                        sent_init test_client test_get)]\<rparr>)"
    by (simp add: test_client_fields mockFetch_def)
       (simp add: fullUrl_of_def test_client_def)
  from transport_failure_error [OF test_client_new h1 h2] show ?thesis
    by simp
qed

text \<open>
  The claim as first stated gives status 0 and the fixed code to every failure of the
  transport. A transport that rejects with a \<^verbatim>\<open>HyperstreamApiError\<close> of status 503 has
  that error surfaced, by the \<^verbatim>\<open>instanceof\<close> guard of \<^verbatim>\<open>normalizeTransportError\<close>.
\<close>

theorem transport_failure_status_counterexample:
  "fst (getChains test_client
          \<lparr>responses = [Inl (ThrownApiError test_upstream_error)], calls = []\<rparr>) =
     Inl (ApiFailure test_upstream_error) \<and>
   status test_upstream_error = 503 \<and>
   status test_upstream_error \<noteq> 0 \<and>
   code test_upstream_error \<noteq> Str ''TransportError''"
  by (simp add: getChains_def getJson_def buildPathWithQuery_def
        mock_dispatch [OF test_client_fields, where p = "normalizedPath ''/v1/chains''"]
        normalizeTransportError_def test_upstream_error_def)

section \<open>The methods of the client\<close>

text \<open>
  Claim C5, as amended. When the response to the request of a lookup has a status
  outside 200 to 299 and the error of the dispatch is constructed, which it is when its
  message has a string: \<^verbatim>\<open>getToken\<close> returns \<^verbatim>\<open>null\<close> for the statuses 404 and 400, and
  \<^verbatim>\<open>getIntentByDeposit\<close> returns \<^verbatim>\<open>null\<close> for the status 404 only, so that a 400 makes it
  fail. For every other status both fail with the \<^verbatim>\<open>HyperstreamApiError\<close> of the
  dispatch as it is, the one \<^verbatim>\<open>getJson\<close> fails with, whose status is the HTTP status.
  When the message has no string, the \<^verbatim>\<open>TypeError\<close> of the constructor passes both
  methods, whatever the status.
\<close>

theorem lookup_absence_statuses:
  assumes "HyperstreamClient_new gf config = Inr client" and "fetch config = Some mockFetch"
    and "responses w = Inr r # rest"
    and "\<not> response_ok r"
  shows "(case js_String (chosen_message (json r) (statusText r)) of
            Some m \<Rightarrow>
              \<exists>e. error_of_result (json_result r) = Some e \<and>
                  message e = m \<and>
                  status e = resp_status r \<and>
                  fst (getToken client chainId ident w) =
                    (if resp_status r = 404 \<or> resp_status r = 400 then Inr Null
                     else Inl (ApiFailure e)) \<and>
                  fst (getIntentByDeposit client chainId txHash w) =
                    (if resp_status r = 404 then Inr Null else Inl (ApiFailure e)) \<and>
                  fst (getJson client p w) = Inl (ApiFailure e)
          | None \<Rightarrow>
              fst (getToken client chainId ident w) = Inl TypeError \<and>
              fst (getIntentByDeposit client chainId txHash w) = Inl TypeError \<and>
              fst (getJson client p w) = Inl TypeError)"
proof -
  note cl = client_new_fields(2,3) [OF assms(1)] client_new_fields(5) [OF assms(1,2)]
  note gj = mock_getJson [OF cl assms(3,4)]
  from gj obtain w1 where g1:
    "getJson client (getToken_path chainId ident) w =
       (Inl (constructed (error_of_result (json_result r))), w1)" ..
  from gj obtain w2 where g2:
    "getJson client
       (''/v1/intent/by-deposit/'' @ Number_toString chainId @ ''/'' @ encodeURIComponent txHash) w =
       (Inl (constructed (error_of_result (json_result r))), w2)" ..
  from gj obtain w3 where g3:
    "getJson client p w = (Inl (constructed (error_of_result (json_result r))), w3)" ..
  show ?thesis
  proof (cases "js_String (chosen_message (json r) (statusText r))")
    case None
    then have "error_of_result (json_result r) = None"
      by (simp add: error_of_result_eq)
    with g1 g2 g3 None show ?thesis
      by (simp add: getToken_def getIntentByDeposit_def constructed_def)
  next
    case (Some m)
    then obtain e where e: "error_of_result (json_result r) = Some e"
      and m: "message e = m" and st: "status e = resp_status r"
      by (simp add: error_of_result_eq)
    with g1 g2 g3 Some show ?thesis
      by (simp add: getToken_def getIntentByDeposit_def constructed_def)
  qed
qed

theorem lookup_absence_statuses_witness:
  "\<exists>e. message e = ''Validation failed'' \<and> status e = 400 \<and>
        fst (getToken test_client 42161 ''USDC''
               \<lparr>responses = [Inr test_bad_request], calls = []\<rparr>) = Inr Null \<and>
        fst (getIntentByDeposit test_client 42161 ''0xabc''
               \<lparr>responses = [Inr test_bad_request], calls = []\<rparr>) = Inl (ApiFailure e)"
proof -
  have h3: "responses \<lparr>responses = [Inr test_bad_request], calls = []\<rparr> = Inr test_bad_request # []"
    by simp
  have h4: "\<not> response_ok test_bad_request"
    by (simp add: test_bad_request_def MockResponse_def response_ok_def)
  have s: "resp_status test_bad_request = 400"
    by (simp add: test_bad_request_def MockResponse_def)
  have c: "js_String (chosen_message (json test_bad_request) (statusText test_bad_request)) =
             Some ''Validation failed''"
    by (simp add: chosen_message_def field_def falsy_def test_bad_request_def MockResponse_def)
  from lookup_absence_statuses [OF test_client_new test_config_fetch h3 h4,
      where chainId = 42161 and ident = "''USDC''" and txHash = "''0xabc''"
        and p = "''/v1/chains''"]
  show ?thesis
    by (auto simp: s c)
qed

text \<open>
  The claim as first stated has \<^verbatim>\<open>getToken\<close> return \<^verbatim>\<open>null\<close> for every response of status
  404. A response of status 404 whose body has for \<^verbatim>\<open>message\<close> an object with a
  \<^verbatim>\<open>toString\<close> property of its own, outside the declared \<^verbatim>\<open>HyperstreamErrorPayload\<close>,
  makes the constructor of the error throw: the \<^verbatim>\<open>TypeError\<close> is no
  \<^verbatim>\<open>HyperstreamApiError\<close>, and \<^verbatim>\<open>getToken\<close> fails with it.
\<close>

theorem lookup_unprintable_counterexample:
  "fst (getToken test_client 42161 ''USDC''
          \<lparr>responses = [Inr test_unprintable_notfound], calls = []\<rparr>) = Inl TypeError \<and>
   resp_status test_unprintable_notfound = 404"
proof -
  have h3: "responses \<lparr>responses = [Inr test_unprintable_notfound], calls = []\<rparr> =
              Inr test_unprintable_notfound # []"
    by simp
  have h4: "\<not> response_ok test_unprintable_notfound"
    by (simp add: test_unprintable_notfound_def MockResponse_def response_ok_def)
  have e: "error_of_result (json_result test_unprintable_notfound) = None"
    by (simp add: error_of_result_eq chosen_message_def field_def falsy_def test_unprintable_notfound_def
          MockResponse_def)
  from mock_getJson [OF test_client_fields h3 h4, of "getToken_path 42161 ''USDC''"]
  obtain w' where
    "getJson test_client (getToken_path 42161 ''USDC'')
       \<lparr>responses = [Inr test_unprintable_notfound], calls = []\<rparr> =
       (Inl (constructed (error_of_result (json_result test_unprintable_notfound))), w')" ..
  then have "fst (getToken test_client 42161 ''USDC''
                    \<lparr>responses = [Inr test_unprintable_notfound], calls = []\<rparr>) = Inl TypeError"
    by (simp add: getToken_def e constructed_def)
  moreover have "resp_status test_unprintable_notfound = 404"
    by (simp add: test_unprintable_notfound_def MockResponse_def)
  ultimately show ?thesis by (rule conjI)
qed

text \<open>
  Claim C6. When the dispatch of \<^verbatim>\<open>submitDeposit\<close> succeeds with a 2xx response, the
  method returns, and what it returns is whether the \<^verbatim>\<open>status\<close> field of the decoded
  body is the string \<^verbatim>\<open>accepted\<close>. Every other body, also an absent one, one that did
  not decode and one that is not an object, gives \<^verbatim>\<open>false\<close> and no failure.
\<close>

theorem submitDeposit_accepted_iff:
  assumes "HyperstreamClient_new gf config = Inr client" and "fetch config = Some mockFetch"
    and "responses w = Inr r # rest"
    and "response_ok r"
  shows "fst (submitDeposit client request w) =
           Inr (own_prop (json r) ''status'' = Str ''accepted'')"
proof -
  note cl = client_new_fields(2,3) [OF assms(1)] client_new_fields(5) [OF assms(1,2)]
  have "fst (postJson client ''/v1/deposits/submit'' request w) = Inr (json r)"
    using assms(4)
    by (simp add: postJson_def buildPathWithQuery_def
          mock_dispatch [OF cl assms(3), where p = "normalizedPath ''/v1/deposits/submit''"])
  moreover have "\<not> truthy v \<Longrightarrow> own_prop v ''status'' \<noteq> Str ''accepted''" for v
    by (cases v) simp_all
  moreover have "truthy v \<Longrightarrow> member v ''status'' = Inr (own_prop v ''status'')" for v
    by (cases v) (simp_all add: member_def)
  ultimately show ?thesis
    by (auto simp: submitDeposit_def split: prod.splits sum.splits)
qed

theorem submitDeposit_accepted_iff_witness:
  "fst (submitDeposit test_client (Obj [(''intentId'', Str ''0x01'')])
          \<lparr>responses = [Inr test_accepted], calls = []\<rparr>) = Inr True"
proof -
  have h3: "responses \<lparr>responses = [Inr test_accepted], calls = []\<rparr> = Inr test_accepted # []"
    by simp
  have h4: "response_ok test_accepted"
    by (simp add: test_accepted_def MockResponse_def response_ok_def)
  from submitDeposit_accepted_iff [OF test_client_new test_config_fetch h3 h4]
  show ?thesis
    by (simp add: test_accepted_def MockResponse_def)
qed

text \<open>
  Claim C9. \<^verbatim>\<open>getToken\<close> makes its request on the address path
  \<^verbatim>\<open>/v1/tokens/<chainId>/<identifier>\<close> when the identifier matches the hex pattern, and
  on the symbol path \<^verbatim>\<open>/v1/tokens/<chainId>/symbol/<encoded identifier>\<close> otherwise. The
  identifier matches when it is \<^verbatim>\<open>0x\<close> followed by one or more hex digits and nothing
  else.
\<close>

theorem getToken_route:
  assumes "HyperstreamClient_new gf config = Inr client" and "fetch config = Some mockFetch"
    and "responses w = out # rest"
  shows "map fst (calls (snd (getToken client chainId ident w))) =
           map fst (calls w) @
             [fullUrl_of client
                (if isHexLike ident then ''/v1/tokens/'' @ Number_toString chainId @ ''/'' @ ident
                 else ''/v1/tokens/'' @ Number_toString chainId @ ''/symbol/'' @ encodeURIComponent ident)] \<and>
         (isHexLike ident \<longleftrightarrow>
            (\<exists>ds. ident = ''0x'' @ ds \<and> ds \<noteq> [] \<and> set ds \<subseteq> set ''0123456789abcdefABCDEF''))"
proof -
  note cl = client_new_fields(2,3) [OF assms(1)] client_new_fields(5) [OF assms(1,2)]
  have p: "buildPathWithQuery (getToken_path chainId ident) None = Inr (getToken_path chainId ident)"
    by (simp add: buildPathWithQuery_def normalizedPath_def startsWith_def getToken_path_def Let_def)
  have pe: "getToken_path chainId ident =
          (if isHexLike ident then ''/v1/tokens/'' @ Number_toString chainId @ ''/'' @ ident
           else ''/v1/tokens/'' @ Number_toString chainId @ ''/symbol/'' @ encodeURIComponent ident)"
    by (simp add: getToken_path_def Let_def isHexLike_encode)
  have "map fst (calls (snd (getToken client chainId ident w))) =
           map fst (calls w) @ [fullUrl_of client (getToken_path chainId ident)]"
    by (simp add: getToken_world getJson_def
          mock_dispatch [OF cl assms(3), where p = "getToken_path chainId ident"] p)
  then have "map fst (calls (snd (getToken client chainId ident w))) =
           map fst (calls w) @
             [fullUrl_of client
                (if isHexLike ident then ''/v1/tokens/'' @ Number_toString chainId @ ''/'' @ ident
                 else ''/v1/tokens/'' @ Number_toString chainId @ ''/symbol/'' @ encodeURIComponent ident)]"
    by (simp only: pe)
  then show ?thesis
    using isHexLike_iff [of ident] by (rule conjI)
qed

theorem getToken_route_witness:
  "map fst (calls (snd (getToken test_client 42161 ''0x0000000000000000000000000000000000000002''
                          \<lparr>responses = [Inr test_notfound], calls = []\<rparr>))) =
     [''https://api.test.hyperstream.xyz/v1/tokens/42161/0x0000000000000000000000000000000000000002''] \<and>
   map fst (calls (snd (getToken test_client 1 ''US DC''
                          \<lparr>responses = [Inr test_notfound], calls = []\<rparr>))) =
     [''https://api.test.hyperstream.xyz/v1/tokens/1/symbol/US%20DC'']"
proof -
  have h3: "responses \<lparr>responses = [Inr test_notfound], calls = []\<rparr> = Inr test_notfound # []"
    by simp
  have hx: "isHexLike ''0x0000000000000000000000000000000000000002''"
    by (simp add: isHexLike_def hex_digit_def)
  have n: "Number_toString 42161 = ''42161''"
    by (simp add: Number_toString_def show_int_def show_nat.simps digit_char_def)
  have hs: "\<not> isHexLike ''US DC''"
    by (simp add: isHexLike_def)
  have n1: "Number_toString 1 = ''1''"
    by (simp add: Number_toString_def show_int_def show_nat.simps digit_char_def)
  have e: "encodeURIComponent ''US DC'' = ''US%20DC''"
    by code_simp
  note route = getToken_route [OF test_client_new test_config_fetch h3]
  from route [where chainId = 42161 and ident = "''0x0000000000000000000000000000000000000002''"]
    route [where chainId = 1 and ident = "''US DC''"]
  show ?thesis
    by (simp add: hx n hs n1 e fullUrl_of_def test_client_def)
qed

section \<open>Construction and paths\<close>

text \<open>
  Claim C7, as amended. A client is constructed only from a non-empty base address. Its
  base address is the configured one with all trailing slashes stripped, unless the
  configured one is made of slashes only: then it is the configured one, unchanged.
  What is stripped is a run of slashes at the end, and the result ends in no slash.
  Every request goes to that base address followed by its path, and registering an
  interceptor, the one change a client can undergo, leaves the base address as it is.
\<close>

theorem base_address_normalized:
  assumes "HyperstreamClient_new gf config = Inr client"
  shows "baseUrl config \<noteq> [] \<and>
         baseURL client = Some (normalizedBase (baseUrl config)) \<and>
         fullUrl_of client url = normalizedBase (baseUrl config) @ url \<and>
         normalizedBase (baseUrl config) =
           (if set (baseUrl config) \<subseteq> {CHR ''/''} then baseUrl config
            else strip_trailing_slashes (baseUrl config)) \<and>
         (\<exists>k. baseUrl config = strip_trailing_slashes (baseUrl config) @ replicate k CHR ''/'') \<and>
         (\<forall>t. strip_trailing_slashes (baseUrl config) \<noteq> t @ ''/'') \<and>
         baseURL (addRequestInterceptor client i) = baseURL client \<and>
         baseURL (addResponseInterceptor client j) = baseURL client"
proof -
  note f = client_new_fields(1,4) [OF assms]
  have "fullUrl_of client url = normalizedBase (baseUrl config) @ url"
    using f normalizedBase_nonempty [of "baseUrl config"] by (simp add: fullUrl_of_def)
  moreover have "baseURL (addRequestInterceptor client i) = baseURL client"
    by (simp add: addRequestInterceptor_def)
  moreover have "baseURL (addResponseInterceptor client j) = baseURL client"
    by (simp add: addResponseInterceptor_def)
  ultimately show ?thesis
    using f normalizedBase_cases [of "baseUrl config"]
      strip_trailing_slashes_decomp [of "baseUrl config"]
      strip_trailing_slashes_no_slash [of "baseUrl config"]
    by blast
qed

theorem base_address_normalized_witness:
  "baseURL test_client = Some ''https://api.test.hyperstream.xyz'' \<and>
   fullUrl_of test_client ''/v1/chains'' = ''https://api.test.hyperstream.xyz/v1/chains'' \<and>
   normalizedBase (baseUrl test_trailing_config) = ''https://api.test.hyperstream.xyz''"
proof -
  have s: "strip_trailing_slashes ''https://api.test.hyperstream.xyz//'' =
             ''https://api.test.hyperstream.xyz''"
    by (simp add: strip_trailing_slashes_def)
  have h: "HyperstreamClient_new None test_trailing_config = Inr test_client"
    by (simp add: HyperstreamClient_new_def Fetch_new_def test_trailing_config_def
          test_client_def normalizedBase_def s)
  have n: "normalizedBase (baseUrl test_trailing_config) = ''https://api.test.hyperstream.xyz''"
    by (simp add: test_trailing_config_def normalizedBase_def s)
  from base_address_normalized [OF h, of "''/v1/chains''"] show ?thesis
    by (simp add: n)
qed

text \<open>
  The claim as first stated strips the slashes of every non-empty base address. The base
  address \<^verbatim>\<open>/\<close> strips to the empty string, which \<^verbatim>\<open>||\<close> replaces by the configured
  address: the client keeps \<^verbatim>\<open>/\<close>.
\<close>

theorem base_address_slashes_counterexample:
  "HyperstreamClient_new None test_root_config = Inr test_root_client \<and>
   baseURL test_root_client = Some ''/'' \<and>
   strip_trailing_slashes (baseUrl test_root_config) = [] \<and>
   fullUrl_of test_root_client ''/v1/chains'' = ''//v1/chains''"
  by (simp add: HyperstreamClient_new_def Fetch_new_def test_root_config_def test_root_client_def
        normalizedBase_def strip_trailing_slashes_def fullUrl_of_def)

text \<open>
  Claim C8, as amended. The path sent to the transport begins with a slash: a path
  that does not start with one gets one in front, and a path that starts with one is
  sent as it is, whatever follows its first slash. Nothing else of the path is
  rewritten. When a query is given, whose keys are distinct as those of an object are,
  the entries whose value is \<^verbatim>\<open>undefined\<close> or \<^verbatim>\<open>null\<close> are left out, the other values
  are made strings, and the encoded pairs follow the path after a question mark when
  there is a pair at all. A value that has no string leaves no path to send: building
  the path fails with the \<^verbatim>\<open>TypeError\<close> of the conversion.
\<close>

theorem buildPathWithQuery_result:
  assumes "case q of None \<Rightarrow> True | Some entries \<Rightarrow> distinct (map fst entries)"
  shows "buildPathWithQuery p q =
           (case q of
              None \<Rightarrow> Inr (if startsWith p ''/'' then p else ''/'' @ p)
            | Some entries \<Rightarrow>
                (case kept_entries entries of
                   None \<Rightarrow> Inl TypeError
                 | Some kept \<Rightarrow>
                     Inr ((if startsWith p ''/'' then p else ''/'' @ p) @
                          (if kept = [] then [] else ''?'' @ params_toString kept))))"
proof (cases q)
  case None
  then show ?thesis by (simp add: buildPathWithQuery_def normalizedPath_def)
next
  case (Some entries)
  with assms have "distinct (map fst entries)" by simp
  then have "query_params entries [] = kept_entries entries"
    using query_params_distinct [of entries "[]"]
    by (cases "kept_entries entries") simp_all
  with Some show ?thesis
    by (simp add: buildPathWithQuery_def normalizedPath_def Let_def params_toString_Nil
          split: option.splits)
qed

theorem buildPathWithQuery_result_witness:
  "buildPathWithQuery ''v1/tokens''
       (Some [(''q'', Str ''US DC''), (''cursor'', Undefined), (''limit'', Num 5), (''x'', Null)]) =
     Inr ''/v1/tokens?q=US+DC&limit=5'' \<and>
   buildPathWithQuery ''/v1/chains'' (Some [(''cursor'', Undefined)]) = Inr ''/v1/chains''"
proof -
  have h1: "case Some [(''q'', Str ''US DC''), (''cursor'', Undefined), (''limit'', Num 5), (''x'', Null)] of
              None \<Rightarrow> True | Some entries \<Rightarrow> distinct (map fst entries)"
    by simp
  have h2: "case Some [(''cursor'', Undefined)] of
              None \<Rightarrow> True | Some entries \<Rightarrow> distinct (map fst entries)"
    by simp
  have n: "Number_toString 5 = ''5''"
    by (simp add: Number_toString_def show_int_def show_nat.simps digit_char_def)
  have f1: "form_encode ''US DC'' = ''US+DC''" and f2: "form_encode ''q'' = ''q''"
    and f3: "form_encode ''limit'' = ''limit''" and f4: "form_encode ''5'' = ''5''"
    by code_simp+
  from buildPathWithQuery_result [OF h1, of "''v1/tokens''"]
    buildPathWithQuery_result [OF h2, of "''/v1/chains''"]
  show ?thesis
    by (simp add: kept_entries_def startsWith_def params_toString_def n f1 f2 f3 f4)
qed

text \<open>
  The claim as first stated gives every path exactly one leading slash. A path that
  starts with two slashes is sent with both.
\<close>

theorem one_leading_slash_counterexample:
  "buildPathWithQuery ''//v1/chains'' None = Inr ''//v1/chains'' \<and>
   \<not> one_leading_slash ''//v1/chains''"
  by (simp add: buildPathWithQuery_def normalizedPath_def startsWith_def one_leading_slash_def)

end
